theory Spec2Isabelle
  imports Complex_Main
begin

section \<open>Erf-AI: the model runtime adapter and its HTTP controllers\<close>

text \<open>
  The development embeds \<^verbatim>\<open>src/services/aiService.js\<close> (the singleton that holds the one
  live model), the AI controller \<^verbatim>\<open>aiController.js\<close>, the handler \<^verbatim>\<open>register\<close> of the auth
  controller and \<^verbatim>\<open>src/controllers/datasetController.js\<close>.  JavaScript objects become
  records, \<^verbatim>\<open>undefined\<close> becomes \<open>None\<close>, a \<^verbatim>\<open>throw\<close> becomes a value of type \<open>error\<close>, and the
  mutable fields of the service and the collections of the document store are passed in
  and returned.  The tensor library and the file system are outside the repository: what
  they decide (which configurations a layer factory accepts, which layers a model takes,
  what a stored model file holds, what the network computes, what a save writes) is a
  parameter of the function that calls them.
\<close>

subsection \<open>JavaScript values and errors\<close>

datatype error = TypeError | NoModelError | LibraryError

text \<open>A request field that the handler only tests for identity or truthiness.\<close>

datatype jsvalue = JUndefined | JNull | JBool bool | JNumber int | JString string

text \<open>\<^verbatim>\<open>if (s)\<close> on a string that may be absent: \<^verbatim>\<open>undefined\<close>, \<^verbatim>\<open>null\<close> and \<^verbatim>\<open>""\<close> are falsy.\<close>

fun truthy :: "string option \<Rightarrow> bool" where
  "truthy None = False"
| "truthy (Some s) = (s \<noteq> [])"

text \<open>\<^verbatim>\<open>a || d\<close> on a string that may be absent.\<close>

fun or_default :: "string option \<Rightarrow> string \<Rightarrow> string" where
  "or_default None d = d"
| "or_default (Some s) d = (if s = [] then d else s)"

text \<open>\<^verbatim>\<open>String.prototype.startsWith\<close>.\<close>

definition startsWith :: "string \<Rightarrow> string \<Rightarrow> bool" where
  "startsWith s p = (take (length p) s = p)"

text \<open>
  A string is a list of code units below 256.  \<^verbatim>\<open>String.prototype.toLowerCase\<close> maps the
  capital letters among them, \<^verbatim>\<open>A\<close> to \<^verbatim>\<open>Z\<close> and U+00C0 to U+00DE without U+00D7, to
  their small letters and leaves every other code unit as it is.
\<close>

definition capital_letters :: "char list" where
  "capital_letters =
     ''ABCDEFGHIJKLMNOPQRSTUVWXYZ'' @
     [CHR 0xC0, CHR 0xC1, CHR 0xC2, CHR 0xC3, CHR 0xC4, CHR 0xC5, CHR 0xC6, CHR 0xC7,
      CHR 0xC8, CHR 0xC9, CHR 0xCA, CHR 0xCB, CHR 0xCC, CHR 0xCD, CHR 0xCE, CHR 0xCF,
      CHR 0xD0, CHR 0xD1, CHR 0xD2, CHR 0xD3, CHR 0xD4, CHR 0xD5, CHR 0xD6,
      CHR 0xD8, CHR 0xD9, CHR 0xDA, CHR 0xDB, CHR 0xDC, CHR 0xDD, CHR 0xDE]"

definition small_letters :: "char list" where
  "small_letters =
     ''abcdefghijklmnopqrstuvwxyz'' @
     [CHR 0xE0, CHR 0xE1, CHR 0xE2, CHR 0xE3, CHR 0xE4, CHR 0xE5, CHR 0xE6, CHR 0xE7,
      CHR 0xE8, CHR 0xE9, CHR 0xEA, CHR 0xEB, CHR 0xEC, CHR 0xED, CHR 0xEE, CHR 0xEF,
      CHR 0xF0, CHR 0xF1, CHR 0xF2, CHR 0xF3, CHR 0xF4, CHR 0xF5, CHR 0xF6,
      CHR 0xF8, CHR 0xF9, CHR 0xFA, CHR 0xFB, CHR 0xFC, CHR 0xFD, CHR 0xFE]"

definition toLowerCase_char :: "char \<Rightarrow> char" where
  "toLowerCase_char c =
     (case map_of (zip capital_letters small_letters) c of
        Some l \<Rightarrow> l
      | None \<Rightarrow> c)"

definition toLowerCase :: "string \<Rightarrow> string" where
  "toLowerCase s = map toLowerCase_char s"

subsection \<open>JavaScript numbers\<close>

text \<open>
  A number is a finite double, taken as the real it denotes, or one of \<^verbatim>\<open>NaN\<close>,
  \<^verbatim>\<open>Infinity\<close>, \<^verbatim>\<open>-Infinity\<close>.  Comparison and maximum are exact on doubles; a difference
  is rounded to a double, and the rounding \<open>rnd\<close> is a parameter of the functions that
  subtract.
\<close>

datatype jsnum = Finite real | NaN | Infinity | NegInfinity

text \<open>\<^verbatim>\<open>value > 0.5\<close>: false on \<^verbatim>\<open>NaN\<close>.\<close>

fun greater_than_half :: "jsnum \<Rightarrow> bool" where
  "greater_than_half (Finite x) = (1 / 2 < x)"
| "greater_than_half NaN = False"
| "greater_than_half Infinity = True"
| "greater_than_half NegInfinity = False"

text \<open>\<^verbatim>\<open>1 - value\<close>.\<close>

fun one_minus :: "(real \<Rightarrow> real) \<Rightarrow> jsnum \<Rightarrow> jsnum" where
  "one_minus rnd (Finite x) = Finite (rnd (1 - x))"
| "one_minus rnd NaN = NaN"
| "one_minus rnd Infinity = NegInfinity"
| "one_minus rnd NegInfinity = Infinity"

text \<open>\<^verbatim>\<open>Math.max\<close> of two numbers, and of a list: \<^verbatim>\<open>-Infinity\<close> for no argument, \<^verbatim>\<open>NaN\<close>
  as soon as one argument is \<^verbatim>\<open>NaN\<close>.\<close>

fun max2 :: "jsnum \<Rightarrow> jsnum \<Rightarrow> jsnum" where
  "max2 NaN b = NaN"
| "max2 (Finite x) NaN = NaN"
| "max2 Infinity NaN = NaN"
| "max2 NegInfinity NaN = NaN"
| "max2 Infinity (Finite y) = Infinity"
| "max2 Infinity Infinity = Infinity"
| "max2 Infinity NegInfinity = Infinity"
| "max2 (Finite x) Infinity = Infinity"
| "max2 NegInfinity Infinity = Infinity"
| "max2 NegInfinity (Finite y) = Finite y"
| "max2 NegInfinity NegInfinity = NegInfinity"
| "max2 (Finite x) NegInfinity = Finite x"
| "max2 (Finite x) (Finite y) = Finite (max x y)"

definition Math_max :: "jsnum list \<Rightarrow> jsnum" where
  "Math_max xs = fold max2 xs NegInfinity"

subsection \<open>The tensor library as the service sees it\<close>

record layerConfig =
  inputShape_cfg :: "nat list option"
  settings :: "(string \<times> string) list"

record tflayer =
  className :: string
  getConfig :: layerConfig
  trainable :: bool

record compileArgs =
  optimizer_arg :: string
  loss_arg :: string
  metrics_arg :: "string list"
  learningRate_arg :: "real option"

text \<open>
  A sequential model: its layers in the order they were added, and the arguments of the
  last \<^verbatim>\<open>compile\<close> (\<^verbatim>\<open>model.optimizer\<close> is set exactly when the model has been compiled).
\<close>

record tfmodel =
  model_layers :: "tflayer list"
  compiled :: "compileArgs option"

text \<open>
  What the library decides.  \<open>layers_member k\<close> is the class that the member \<open>k\<close> of the
  namespace object \<^verbatim>\<open>tf.layers\<close> constructs, \<open>None\<close> when \<^verbatim>\<open>tf.layers[k]\<close> is \<^verbatim>\<open>undefined\<close>
  (property names are case sensitive).  \<open>accepts_config\<close> tells whether the factory of a
  class accepts a configuration, \<open>accepts_layer\<close> whether \<^verbatim>\<open>model.add\<close> accepts a layer after
  the layers the model already has, \<open>accepts_compile\<close> whether \<^verbatim>\<open>model.compile\<close> accepts the
  model and the arguments; the call throws otherwise.  \<open>loadLayersModel\<close> is
  \<^verbatim>\<open>tf.loadLayersModel\<close>: the model stored at a path, or \<open>None\<close> when the call rejects.
\<close>

record tflib =
  layers_member :: "string \<Rightarrow> string option"
  accepts_config :: "string \<Rightarrow> layerConfig \<Rightarrow> bool"
  accepts_layer :: "tflayer list \<Rightarrow> tflayer \<Rightarrow> bool"
  accepts_compile :: "tflayer list \<Rightarrow> compileArgs \<Rightarrow> bool"
  loadLayersModel :: "string \<Rightarrow> tfmodel option"

definition sequential :: tfmodel where
  "sequential = \<lparr>model_layers = [], compiled = None\<rparr>"

text \<open>
  A layer as its factory returns it: of the factory's class, with the given
  configuration, trainable (a \<^verbatim>\<open>trainable\<close> entry of the configuration is not modelled).
\<close>

definition new_layer :: "string \<Rightarrow> layerConfig \<Rightarrow> tflayer" where
  "new_layer cn cfg = \<lparr>className = cn, getConfig = cfg, trainable = True\<rparr>"

text \<open>The call of the factory of a class, \<^verbatim>\<open>model.add\<close> and \<^verbatim>\<open>model.compile\<close>.\<close>

definition factory :: "tflib \<Rightarrow> string \<Rightarrow> layerConfig \<Rightarrow> error + tflayer" where
  "factory tf cn cfg =
     (if accepts_config tf cn cfg then Inr (new_layer cn cfg) else Inl LibraryError)"

definition add :: "tflib \<Rightarrow> tfmodel \<Rightarrow> tflayer \<Rightarrow> error + tfmodel" where
  "add tf m l =
     (if accepts_layer tf (model_layers m) l
      then Inr (m\<lparr>model_layers := model_layers m @ [l]\<rparr>)
      else Inl LibraryError)"

definition compile :: "tflib \<Rightarrow> tfmodel \<Rightarrow> compileArgs \<Rightarrow> error + tfmodel" where
  "compile tf m args =
     (if accepts_compile tf (model_layers m) args
      then Inr (m\<lparr>compiled := Some args\<rparr>)
      else Inl LibraryError)"

text \<open>\<^verbatim>\<open>tf.layers[k]\<close>: the factory, or \<open>None\<close> for \<^verbatim>\<open>undefined\<close>.\<close>

definition tf_layers :: "tflib \<Rightarrow> string \<Rightarrow> (layerConfig \<Rightarrow> error + tflayer) option" where
  "tf_layers tf k = map_option (factory tf) (layers_member tf k)"

subsection \<open>The state of \<^verbatim>\<open>AIService\<close>\<close>

record layerSpec =
  type :: string
  config :: "layerConfig option"

record architecture =
  layers :: "layerSpec list option"
  inputShape :: "nat list option"

record hyperparams =
  optimizer :: "string option"
  lossFunction :: "string option"
  metrics :: "string list option"
  learningRate :: "real option"

definition no_hyperparams :: hyperparams where
  "no_hyperparams = \<lparr>optimizer = None, lossFunction = None, metrics = None, learningRate = None\<rparr>"

record AIService =
  model :: "tfmodel option"
  transferBaseModel :: "tfmodel option"
  modelArchitecture :: "architecture option"
  hyperparameters :: "hyperparams option"
  isTransferLearning :: bool
  frozenLayers :: "int list"

text \<open>The constructor.\<close>

definition new_AIService :: AIService where
  "new_AIService =
     \<lparr>model = None, transferBaseModel = None, modelArchitecture = None,
      hyperparameters = None, isTransferLearning = False, frozenLayers = []\<rparr>"

record modelConfig =
  architecture :: "architecture option"
  hyperparameters_cfg :: "hyperparams option"
  baseModelPath :: "string option"
  transferLearning :: bool
  freezeBaseLayers :: "bool option"
  outputLayers :: "int list option"

subsection \<open>\<^verbatim>\<open>createModelFromArchitecture\<close>\<close>

text \<open>\<^verbatim>\<open>{ ...layer.config }\<close>, with the input shape of the architecture on the layer at index 0.\<close>

definition layerConfig_of :: "nat list option \<Rightarrow> nat \<Rightarrow> layerSpec \<Rightarrow> layerConfig" where
  "layerConfig_of inputShape' index layer =
     (let layerConfig =
            (case config layer of
               None \<Rightarrow> \<lparr>inputShape_cfg = None, settings = []\<rparr>
             | Some c \<Rightarrow> c)
      in if index = 0
         then layerConfig\<lparr>inputShape_cfg :=
                (case inputShape' of Some s \<Rightarrow> Some s | None \<Rightarrow> inputShape_cfg layerConfig)\<rparr>
         else layerConfig)"

text \<open>
  The \<^verbatim>\<open>switch (layer.type)\<close>: the call of the factory of the case, whose result is the
  layer to add or the error it throws, or \<open>None\<close> in the \<^verbatim>\<open>default\<close> case (a warning).
\<close>

definition switch_layer_type :: "tflib \<Rightarrow> string \<Rightarrow> layerConfig \<Rightarrow> (error + tflayer) option" where
  "switch_layer_type tf t layerConfig =
     (if t = ''dense'' then Some (factory tf ''Dense'' layerConfig)
      else if t = ''conv2d'' then Some (factory tf ''Conv2D'' layerConfig)
      else if t = ''maxPooling2d'' then Some (factory tf ''MaxPooling2D'' layerConfig)
      else if t = ''flatten'' then Some (factory tf ''Flatten'' layerConfig)
      else if t = ''dropout'' then Some (factory tf ''Dropout'' layerConfig)
      else if t = ''lstm'' then Some (factory tf ''LSTM'' layerConfig)
      else if t = ''gru'' then Some (factory tf ''GRU'' layerConfig)
      else if t = ''batchNormalization'' then Some (factory tf ''BatchNormalization'' layerConfig)
      else None)"

text \<open>
  \<^verbatim>\<open>layers.forEach((layer, index) => ...)\<close> on the model under construction: the loop ends
  at the first factory or \<^verbatim>\<open>add\<close> that throws, and the model keeps the layers added
  before.
\<close>

fun forEach_layer ::
  "tflib \<Rightarrow> nat list option \<Rightarrow> layerSpec list \<Rightarrow> nat \<Rightarrow> tfmodel \<Rightarrow> error option \<times> tfmodel" where
  "forEach_layer tf inputShape' [] index m = (None, m)"
| "forEach_layer tf inputShape' (layer # rest) index m =
     (case switch_layer_type tf (type layer) (layerConfig_of inputShape' index layer) of
        None \<Rightarrow> forEach_layer tf inputShape' rest (Suc index) m
      | Some (Inl e) \<Rightarrow> (Some e, m)
      | Some (Inr l) \<Rightarrow>
          (case add tf m l of
             Inl e \<Rightarrow> (Some e, m)
           | Inr m' \<Rightarrow> forEach_layer tf inputShape' rest (Suc index) m'))"

definition compileArgs_of :: "hyperparams \<Rightarrow> bool \<Rightarrow> compileArgs" where
  "compileArgs_of hp withRate =
     \<lparr>optimizer_arg = or_default (optimizer hp) ''adam'',
      loss_arg = or_default (lossFunction hp) ''categoricalCrossentropy'',
      metrics_arg = (case metrics hp of Some ms \<Rightarrow> ms | None \<Rightarrow> [''accuracy'']),
      learningRate_arg =
        (if withRate
         then (case learningRate hp of
                 Some r \<Rightarrow> if r = 0 then Some 0.001 else Some r
               | None \<Rightarrow> Some 0.001)
         else None)\<rparr>"

text \<open>
  The method throws a \<^verbatim>\<open>TypeError\<close> when \<^verbatim>\<open>this.modelArchitecture\<close> is \<^verbatim>\<open>null\<close> (the
  destructuring) or has no \<^verbatim>\<open>layers\<close> (\<^verbatim>\<open>layers.forEach\<close>), and rethrows what a factory,
  \<^verbatim>\<open>add\<close> or \<^verbatim>\<open>compile\<close> throws; from the assignment \<^verbatim>\<open>this.model = tf.sequential()\<close> on,
  \<^verbatim>\<open>this.model\<close> is the model under construction.
\<close>

definition createModelFromArchitecture :: "tflib \<Rightarrow> AIService \<Rightarrow> (error + bool) \<times> AIService" where
  "createModelFromArchitecture tf this =
     (case modelArchitecture this of
        None \<Rightarrow> (Inl TypeError, this)
      | Some arch \<Rightarrow>
          (let hp = (case hyperparameters this of Some h \<Rightarrow> h | None \<Rightarrow> no_hyperparams);
               this1 = this\<lparr>model := Some sequential\<rparr>
           in case layers arch of
                None \<Rightarrow> (Inl TypeError, this1)
              | Some ls \<Rightarrow>
                  (case forEach_layer tf (inputShape arch) ls 0 sequential of
                     (Some e, m) \<Rightarrow> (Inl e, this1\<lparr>model := Some m\<rparr>)
                   | (None, m) \<Rightarrow>
                       (case compile tf m (compileArgs_of hp False) of
                          Inl e \<Rightarrow> (Inl e, this1\<lparr>model := Some m\<rparr>)
                        | Inr m' \<Rightarrow> (Inr True, this1\<lparr>model := Some m'\<rparr>)))))"

subsection \<open>\<^verbatim>\<open>setupTransferLearning\<close>\<close>

text \<open>
  \<^verbatim>\<open>baseModelLayers.forEach((layer, index) => ...)\<close>.  The loop works on \<^verbatim>\<open>this.model\<close> and
  \<^verbatim>\<open>this.frozenLayers\<close>; it stops with a \<^verbatim>\<open>TypeError\<close> at the first copied layer for which
  \<^verbatim>\<open>tf.layers[layer.getClassName().toLowerCase()]\<close> is not a function, or with the error
  that the factory or \<^verbatim>\<open>add\<close> throws, and keeps what it has added so far.
  \<^verbatim>\<open>tfLayer.trainable = false\<close> is an assignment to the layer object that was just added
  to the model.
\<close>

fun forEach_baseLayer ::
  "tflib \<Rightarrow> bool \<Rightarrow> int list \<Rightarrow> tflayer list \<Rightarrow> int \<Rightarrow> tfmodel \<times> int list \<Rightarrow>
     error option \<times> tfmodel \<times> int list" where
  "forEach_baseLayer tf freeze outs [] index (m, frozen) = (None, m, frozen)"
| "forEach_baseLayer tf freeze outs (layer # rest) index (m, frozen) =
     (if index \<in> set outs then forEach_baseLayer tf freeze outs rest (index + 1) (m, frozen)
      else case tf_layers tf (toLowerCase (className layer)) of
             None \<Rightarrow> (Some TypeError, m, frozen)
           | Some build \<Rightarrow>
               (case build (getConfig layer) of
                  Inl e \<Rightarrow> (Some e, m, frozen)
                | Inr tfLayer \<Rightarrow>
                    (case add tf m tfLayer of
                       Inl e \<Rightarrow> (Some e, m, frozen)
                     | Inr m' \<Rightarrow>
                         (if freeze
                          then forEach_baseLayer tf freeze outs rest (index + 1)
                                 (m\<lparr>model_layers :=
                                      model_layers m @ [tfLayer\<lparr>trainable := False\<rparr>]\<rparr>,
                                  frozen @ [index])
                          else forEach_baseLayer tf freeze outs rest (index + 1) (m', frozen)))))"

text \<open>
  The parameters default as in the signature: \<^verbatim>\<open>freezeBaseLayers = true\<close>,
  \<^verbatim>\<open>outputLayers = []\<close>.  When \<^verbatim>\<open>tf.loadLayersModel\<close> rejects, no field has changed yet.
\<close>

definition setupTransferLearning ::
  "tflib \<Rightarrow> AIService \<Rightarrow> string \<Rightarrow> bool option \<Rightarrow> int list option \<Rightarrow>
     (error + bool) \<times> AIService" where
  "setupTransferLearning tf this path freezeOpt outputOpt =
     (let freeze = (case freezeOpt of None \<Rightarrow> True | Some b \<Rightarrow> b);
          outputLayers0 = (case outputOpt of None \<Rightarrow> [] | Some l \<Rightarrow> l)
      in case loadLayersModel tf path of
           None \<Rightarrow> (Inl LibraryError, this)
         | Some base \<Rightarrow>
             (let this1 = this\<lparr>transferBaseModel := Some base, isTransferLearning := True,
                               model := Some sequential\<rparr>;
                  baseModelLayers = model_layers base;
                  outs = (if outputLayers0 = [] then [int (length baseModelLayers) - 1]
                          else outputLayers0)
              in case forEach_baseLayer tf freeze outs baseModelLayers 0
                        (sequential, frozenLayers this1) of
                   (Some e, m, frozen) \<Rightarrow>
                     (Inl e, this1\<lparr>model := Some m, frozenLayers := frozen\<rparr>)
                 | (None, m, frozen) \<Rightarrow>
                     (Inr True, this1\<lparr>model := Some m, frozenLayers := frozen\<rparr>)))"

subsection \<open>\<^verbatim>\<open>loadModel\<close>\<close>

text \<open>
  The fallback network 10 \<rightarrow> 100 \<rightarrow> 50 \<rightarrow> 1: the configurations of its three dense layers,
  the loop of the three \<^verbatim>\<open>this.model.add(tf.layers.dense(...))\<close>, and its compile
  arguments.
\<close>

definition default_configs :: "layerConfig list" where
  "default_configs =
     [\<lparr>inputShape_cfg = Some [10],
       settings = [(''units'', ''100''), (''activation'', ''relu'')]\<rparr>,
      \<lparr>inputShape_cfg = None,
       settings = [(''units'', ''50''), (''activation'', ''relu'')]\<rparr>,
      \<lparr>inputShape_cfg = None,
       settings = [(''units'', ''1''), (''activation'', ''sigmoid'')]\<rparr>]"

fun add_dense_layers :: "tflib \<Rightarrow> layerConfig list \<Rightarrow> tfmodel \<Rightarrow> error option \<times> tfmodel" where
  "add_dense_layers tf [] m = (None, m)"
| "add_dense_layers tf (cfg # rest) m =
     (case factory tf ''Dense'' cfg of
        Inl e \<Rightarrow> (Some e, m)
      | Inr l \<Rightarrow>
          (case add tf m l of
             Inl e \<Rightarrow> (Some e, m)
           | Inr m' \<Rightarrow> add_dense_layers tf rest m'))"

definition default_compileArgs :: compileArgs where
  "default_compileArgs =
     \<lparr>optimizer_arg = ''adam'', loss_arg = ''binaryCrossentropy'',
      metrics_arg = [''accuracy''], learningRate_arg = None\<rparr>"

text \<open>The model that the fallback branch leaves in \<^verbatim>\<open>this.model\<close> when nothing throws.\<close>

definition default_model :: tfmodel where
  "default_model =
     \<lparr>model_layers = map (new_layer ''Dense'') default_configs,
      compiled = Some default_compileArgs\<rparr>"

text \<open>\<^verbatim>\<open>modelConfig.architecture && modelConfig.architecture.layers\<close> (an array is truthy).\<close>

definition has_architecture_layers :: "modelConfig \<Rightarrow> bool" where
  "has_architecture_layers modelConfig =
     (case architecture modelConfig of None \<Rightarrow> False | Some a \<Rightarrow> layers a \<noteq> None)"

text \<open>\<^verbatim>\<open>modelConfig.baseModelPath && modelConfig.transferLearning\<close>.\<close>

definition wants_transfer :: "modelConfig \<Rightarrow> bool" where
  "wants_transfer modelConfig = (truthy (baseModelPath modelConfig) \<and> transferLearning modelConfig)"

text \<open>
  The whole body is inside \<^verbatim>\<open>try\<close>: every failure is caught and reported as \<^verbatim>\<open>false\<close>, with
  the fields as they were when it was thrown.
\<close>

definition loadModel ::
  "tflib \<Rightarrow> AIService \<Rightarrow> string option \<Rightarrow> modelConfig \<Rightarrow> bool \<times> AIService" where
  "loadModel tf this modelPath modelConfig =
     (let this1 = this\<lparr>isTransferLearning := False, frozenLayers := []\<rparr>
      in if truthy modelPath then
           (case loadLayersModel tf (the modelPath) of
              None \<Rightarrow> (False, this1)
            | Some m \<Rightarrow> (True, this1\<lparr>model := Some m\<rparr>))
         else if has_architecture_layers modelConfig then
           (case createModelFromArchitecture tf
                   (this1\<lparr>modelArchitecture := architecture modelConfig,
                          hyperparameters :=
                            Some (case hyperparameters_cfg modelConfig of
                                    Some h \<Rightarrow> h
                                  | None \<Rightarrow> no_hyperparams)\<rparr>) of
              (Inl e, this2) \<Rightarrow> (False, this2)
            | (Inr r, this2) \<Rightarrow> (True, this2))
         else if wants_transfer modelConfig then
           (case setupTransferLearning tf this1 (the (baseModelPath modelConfig))
                   (freezeBaseLayers modelConfig) (outputLayers modelConfig) of
              (Inl e, this2) \<Rightarrow> (False, this2)
            | (Inr r, this2) \<Rightarrow> (True, this2))
         else
           (case add_dense_layers tf default_configs sequential of
              (Some e, m) \<Rightarrow> (False, this1\<lparr>model := Some m\<rparr>)
            | (None, m) \<Rightarrow>
                (case compile tf m default_compileArgs of
                   Inl e \<Rightarrow> (False, this1\<lparr>model := Some m\<rparr>)
                 | Inr m' \<Rightarrow> (True, this1\<lparr>model := Some m'\<rparr>))))"

subsection \<open>\<^verbatim>\<open>trainModel\<close>\<close>

text \<open>
  What \<^verbatim>\<open>model.fit\<close> resolves to: \<^verbatim>\<open>epoch\<close> is the list of the indices of the completed
  epochs, \<^verbatim>\<open>history.loss\<close> and \<^verbatim>\<open>history.acc\<close> hold one value for each of them.
\<close>

type_synonym matrix = "jsnum list list"

record fitResult =
  epoch :: "nat list"
  history_loss :: "jsnum list"
  history_acc :: "jsnum list"

text \<open>
  \<open>fit\<close> stands for \<^verbatim>\<open>tf.tensor2d\<close> on the data and the labels, \<^verbatim>\<open>model.fit\<close> with the
  callbacks, and the disposal of the tensors: the fitted model and the result, or \<open>None\<close>
  when one of them throws.  The arguments \<^verbatim>\<open>epochs\<close> and \<^verbatim>\<open>batchSize\<close> default to 10 and 32
  when the caller passes \<^verbatim>\<open>undefined\<close>; \<^verbatim>\<open>validationSplit\<close> is 0.2 for every caller in the
  repository.  Without a live model \<^verbatim>\<open>this.model.optimizer\<close> is a \<^verbatim>\<open>TypeError\<close>.
\<close>

definition trainModel ::
  "tflib \<Rightarrow> (tfmodel \<Rightarrow> matrix \<Rightarrow> matrix \<Rightarrow> nat \<Rightarrow> nat \<Rightarrow> (tfmodel \<times> fitResult) option) \<Rightarrow>
     AIService \<Rightarrow> matrix \<Rightarrow> matrix \<Rightarrow> nat option \<Rightarrow> nat option \<Rightarrow>
     (error + fitResult) \<times> AIService" where
  "trainModel tf fit this trainData labels epochsOpt batchSizeOpt =
     (let epochs = (case epochsOpt of None \<Rightarrow> 10 | Some e \<Rightarrow> e);
          batchSize = (case batchSizeOpt of None \<Rightarrow> 32 | Some b \<Rightarrow> b);
          hp = (case hyperparameters this of Some h \<Rightarrow> h | None \<Rightarrow> no_hyperparams)
      in case model this of
           None \<Rightarrow> (Inl TypeError, this)
         | Some m0 \<Rightarrow>
             (case (if compiled m0 = None then compile tf m0 (compileArgs_of hp True)
                    else Inr m0) of
                Inl e \<Rightarrow> (Inl e, this)
              | Inr m \<Rightarrow>
                  (let this1 = this\<lparr>model := Some m\<rparr>
                   in case fit m trainData labels epochs batchSize of
                        None \<Rightarrow> (Inl LibraryError, this1)
                      | Some (m', result) \<Rightarrow> (Inr result, this1\<lparr>model := Some m'\<rparr>))))"

subsection \<open>\<^verbatim>\<open>predict\<close>\<close>

text \<open>The function mapped over \<^verbatim>\<open>results\<close>.\<close>

definition confidence_of :: "(real \<Rightarrow> real) \<Rightarrow> jsnum list \<Rightarrow> jsnum" where
  "confidence_of rnd predArray =
     (if length predArray = 1
      then (let value = predArray ! 0
            in if greater_than_half value then value else one_minus rnd value)
      else Math_max predArray)"

text \<open>
  \<open>run\<close> stands for \<^verbatim>\<open>tf.tensor2d(inputData)\<close>, \<^verbatim>\<open>model.predict\<close> and \<^verbatim>\<open>predictions.array()\<close>:
  one row of outputs for each input row, or \<open>None\<close> when one of them throws.  The method
  rethrows what it catches and changes no field of the service.
\<close>

definition predict ::
  "(real \<Rightarrow> real) \<Rightarrow> (tfmodel \<Rightarrow> matrix \<Rightarrow> matrix option) \<Rightarrow> AIService \<Rightarrow> matrix \<Rightarrow>
     error + (matrix \<times> jsnum list)" where
  "predict rnd run this inputData =
     (case model this of
        None \<Rightarrow> Inl NoModelError
      | Some m \<Rightarrow>
          (case run m inputData of
             None \<Rightarrow> Inl LibraryError
           | Some results \<Rightarrow> Inr (results, map (confidence_of rnd) results)))"

subsection \<open>\<^verbatim>\<open>saveModel\<close>\<close>

text \<open>
  Inside \<^verbatim>\<open>saveModel(path, metadata)\<close> the identifier \<^verbatim>\<open>path\<close> is the parameter, a string,
  and hides the module \<^verbatim>\<open>path\<close> imported at the top of the file.  A member access
  \<^verbatim>\<open>path.join\<close> is therefore looked up on a string.
\<close>

datatype binding = StringValue string | PathModule

definition MODELS_DIR :: string where
  "MODELS_DIR = ''/app/models''"

text \<open>\<^verbatim>\<open>path.join\<close> of the Node module, on a directory and a relative name.\<close>

definition path_join :: "string \<Rightarrow> string \<Rightarrow> string" where
  "path_join dir name = dir @ ''/'' @ name"

text \<open>The member \<^verbatim>\<open>join\<close>: a function on the module, \<^verbatim>\<open>undefined\<close> on a string.\<close>

fun member_join :: "binding \<Rightarrow> (string \<Rightarrow> string \<Rightarrow> string) option" where
  "member_join (StringValue s) = None"
| "member_join PathModule = Some path_join"

text \<open>\<^verbatim>\<open>path.replace(/^file:\/\//, "")\<close>.\<close>

definition strip_file_prefix :: "string \<Rightarrow> string" where
  "strip_file_prefix s = (if startsWith s ''file://'' then drop 7 s else s)"

record saveMetadata =
  metadata_given :: "(string \<times> string) list"
  isTransferLearning_saved :: bool
  frozenLayers_saved :: "int list"
  modelArchitecture_saved :: "architecture option"
  hyperparameters_saved :: "hyperparams option"
  date_saved :: string

text \<open>The second argument of \<^verbatim>\<open>model.save\<close>.\<close>

record saveConfig =
  includeOptimizer :: bool
  metadata :: saveMetadata

text \<open>The \<^verbatim>\<open>metadata\<close> object passed to \<^verbatim>\<open>model.save\<close>; \<open>now\<close> is \<^verbatim>\<open>new Date().toISOString()\<close>.\<close>

definition metadata_envelope :: "AIService \<Rightarrow> (string \<times> string) list \<Rightarrow> string \<Rightarrow> saveMetadata" where
  "metadata_envelope this metadata' now =
     \<lparr>metadata_given = metadata',
      isTransferLearning_saved = isTransferLearning this,
      frozenLayers_saved = frozenLayers this,
      modelArchitecture_saved = modelArchitecture this,
      hyperparameters_saved = hyperparameters this,
      date_saved = now\<rparr>"

text \<open>
  The statements of the method before \<^verbatim>\<open>model.save\<close>: the arguments of that call (the
  URL, the model, the configuration), or the error thrown before it is reached.
\<close>

definition save_call ::
  "string \<Rightarrow> AIService \<Rightarrow> string \<Rightarrow> (string \<times> string) list \<Rightarrow>
     error + (string \<times> tfmodel \<times> saveConfig)" where
  "save_call now this path metadata' =
     (case model this of
        None \<Rightarrow> Inl NoModelError
      | Some m \<Rightarrow>
          (let resolved =
                 (if \<not> startsWith path ''file://'' \<and> \<not> startsWith path ''http://''
                     \<and> \<not> startsWith path ''https://''
                  then (let cleanPath = strip_file_prefix path
                        in case member_join (StringValue path) of
                             None \<Rightarrow> Inl TypeError
                           | Some join \<Rightarrow> Inr (''file://'' @ join MODELS_DIR cleanPath))
                  else Inr path)
           in case resolved of
                Inl e \<Rightarrow> Inl e
              | Inr url \<Rightarrow>
                  Inr (url, m,
                       \<lparr>includeOptimizer = True,
                        metadata = metadata_envelope this metadata' now\<rparr>)))"

text \<open>
  The model store maps a URL to the model that the library wrote there.  \<open>save\<close> is
  \<^verbatim>\<open>model.save\<close>: the store after the call, or \<open>None\<close> when it rejects; what it does with the
  configuration is the library's matter.  The method catches every error and returns
  \<^verbatim>\<open>false\<close>.
\<close>

type_synonym model_store = "string \<rightharpoonup> tfmodel"

definition saveModel ::
  "(string \<Rightarrow> tfmodel \<Rightarrow> saveConfig \<Rightarrow> model_store \<Rightarrow> model_store option) \<Rightarrow> string \<Rightarrow>
     AIService \<Rightarrow> model_store \<Rightarrow> string \<Rightarrow> (string \<times> string) list \<Rightarrow> bool \<times> model_store" where
  "saveModel save now this store path metadata' =
     (case save_call now this path metadata' of
        Inl e \<Rightarrow> (False, store)
      | Inr (url, m, cfg) \<Rightarrow>
          (case save url m cfg store of
             None \<Rightarrow> (False, store)
           | Some store' \<Rightarrow> (True, store')))"

subsection \<open>\<^verbatim>\<open>getModelSummary\<close>\<close>

record layerSummary =
  type_summary :: string
  trainable_summary :: bool
  params :: nat

record modelSummary =
  layers_summary :: "layerSummary list"
  totalParams :: nat
  trainableParams :: nat
  nonTrainableParams :: int
  isTransferLearning_summary :: bool
  frozenLayers_summary :: "int list"

text \<open>
  \<open>countParams\<close> is the library's count of the weights of a layer; the count of the model
  is the sum over its layers.  The names and shapes that the library attaches to a layer
  are left out of the summary.
\<close>

definition getModelSummary :: "(tflayer \<Rightarrow> nat) \<Rightarrow> AIService \<Rightarrow> error + modelSummary" where
  "getModelSummary countParams this =
     (case model this of
        None \<Rightarrow> Inl NoModelError
      | Some m \<Rightarrow>
          (let ls = map (\<lambda>layer. \<lparr>type_summary = className layer,
                                  trainable_summary = trainable layer,
                                  params = countParams layer\<rparr>) (model_layers m);
               total = sum_list (map countParams (model_layers m));
               trainableCount =
                 fold (\<lambda>layer sum. if trainable_summary layer then sum + params layer else sum) ls 0
           in Inr \<lparr>layers_summary = ls, totalParams = total, trainableParams = trainableCount,
                   nonTrainableParams = int total - int trainableCount,
                   isTransferLearning_summary = isTransferLearning this,
                   frozenLayers_summary = frozenLayers this\<rparr>))"

section \<open>The document store and the controllers\<close>

record response =
  code :: nat
  success :: bool
  message :: string

subsection \<open>The \<^verbatim>\<open>AIModel\<close> collection\<close>

record trainingHistory =
  lastTrained :: nat
  epochs :: jsvalue
  loss :: "jsnum option"
  accuracy :: "jsnum option"

record prediction =
  input_data :: matrix
  output_data :: "matrix \<times> jsnum list"
  requester :: "nat option"
  timestamp :: nat

record AIModel =
  doc_id :: nat
  name :: string
  description :: string
  modelType :: string
  userId :: "nat option"
  status :: string
  architecture_doc :: "layerSpec list"
  trainingHistory :: "trainingHistory option"
  trainingData :: "(matrix \<times> matrix) list"
  predictions :: "prediction list"
  isPublic :: bool
  baseModel :: "nat option"
  freezeBaseLayers_doc :: "bool option"

text \<open>\<^verbatim>\<open>AIModel.findById\<close>.\<close>

definition findById :: "AIModel list \<Rightarrow> nat \<Rightarrow> AIModel option" where
  "findById docs i = find (\<lambda>d. doc_id d = i) docs"

text \<open>\<^verbatim>\<open>doc.save()\<close> of a stored document, and of a new one (which gets a fresh id).\<close>

definition save_doc :: "AIModel list \<Rightarrow> AIModel \<Rightarrow> AIModel list" where
  "save_doc docs d = map (\<lambda>x. if doc_id x = doc_id d then d else x) docs"

definition fresh_id :: "AIModel list \<Rightarrow> nat" where
  "fresh_id docs = Suc (fold max (map doc_id docs) 0)"

text \<open>
  Modelled from the spec: the schema methods of models/aiModel.js, which is not among the
  sources.  \<^verbatim>\<open>addTrainingData\<close> appends an embedded training-data record,
  \<^verbatim>\<open>addPrediction\<close> appends an embedded prediction (input, output, optional requester,
  timestamp) and returns it; the handlers persist the document they return.
\<close>

definition addTrainingData :: "AIModel \<Rightarrow> matrix \<Rightarrow> matrix \<Rightarrow> AIModel" where
  "addTrainingData d td lb = d\<lparr>trainingData := trainingData d @ [(td, lb)]\<rparr>"

definition addPrediction ::
  "nat \<Rightarrow> AIModel \<Rightarrow> matrix \<Rightarrow> matrix \<times> jsnum list \<Rightarrow> nat option \<Rightarrow>
     AIModel \<times> prediction" where
  "addPrediction now d inp out u =
     (let p = \<lparr>input_data = inp, output_data = out, requester = u, timestamp = now\<rparr>
      in (d\<lparr>predictions := predictions d @ [p]\<rparr>, p))"

text \<open>
  Modelled from the spec: the schema method \<^verbatim>\<open>clone\<close> of models/aiModel.js, which is not
  among the sources.  The new document belongs to the requester, copies the architecture
  of the source, points at the source in \<^verbatim>\<open>baseModel\<close>, has status \<^verbatim>\<open>initialized\<close> and
  keeps the \<^verbatim>\<open>freezeBaseLayers\<close> option it was given.
\<close>

definition clone ::
  "nat \<Rightarrow> AIModel \<Rightarrow> nat \<Rightarrow> string option \<Rightarrow> string option \<Rightarrow> bool \<Rightarrow> AIModel" where
  "clone new_id source u nameOpt descriptionOpt freeze =
     \<lparr>doc_id = new_id,
      name = (case nameOpt of Some n \<Rightarrow> n | None \<Rightarrow> name source),
      description = (case descriptionOpt of Some t \<Rightarrow> t | None \<Rightarrow> description source),
      modelType = modelType source,
      userId = Some u,
      status = ''initialized'',
      architecture_doc = architecture_doc source,
      trainingHistory = None,
      trainingData = [],
      predictions = [],
      isPublic = False,
      baseModel = Some (doc_id source),
      freezeBaseLayers_doc = Some freeze\<rparr>"

subsection \<open>The body of a request to the AI routes\<close>

record aiBody =
  modelId :: "nat option"
  name_body :: "string option"
  description_body :: "string option"
  userId_body :: "nat option"
  trainData :: "matrix option"
  labels :: "matrix option"
  epochs_body :: "nat option"
  batchSize_body :: "nat option"
  inputData :: "matrix option"
  freezeBaseLayers_body :: jsvalue

definition empty_body :: aiBody where
  "empty_body =
     \<lparr>modelId = None, name_body = None, description_body = None, userId_body = None,
      trainData = None, labels = None, epochs_body = None, batchSize_body = None,
      inputData = None, freezeBaseLayers_body = JUndefined\<rparr>"

subsection \<open>\<^verbatim>\<open>initializeModel\<close>\<close>

text \<open>
  The handler creates the document, then calls \<^verbatim>\<open>aiService.loadModel()\<close> without
  arguments, and stores the status \<^verbatim>\<open>error\<close> when that call reports failure.  A document
  that the request left without \<^verbatim>\<open>userId\<close> has none.
\<close>

definition no_modelConfig :: modelConfig where
  "no_modelConfig =
     \<lparr>architecture = None, hyperparameters_cfg = None, baseModelPath = None,
      transferLearning = False, freezeBaseLayers = None, outputLayers = None\<rparr>"

text \<open>The \<^verbatim>\<open>config.layers\<close> that the handler writes into every new document.\<close>

definition default_layers :: "layerSpec list" where
  "default_layers =
     [\<lparr>type = ''dense'',
       config = Some \<lparr>inputShape_cfg = Some [10],
                      settings = [(''units'', ''100''), (''activation'', ''relu'')]\<rparr>\<rparr>,
      \<lparr>type = ''dense'',
       config = Some \<lparr>inputShape_cfg = None,
                      settings = [(''units'', ''50''), (''activation'', ''relu'')]\<rparr>\<rparr>,
      \<lparr>type = ''dense'',
       config = Some \<lparr>inputShape_cfg = None,
                      settings = [(''units'', ''1''), (''activation'', ''sigmoid'')]\<rparr>\<rparr>]"

definition initializeModel ::
  "tflib \<Rightarrow> AIModel list \<times> AIService \<Rightarrow> aiBody \<Rightarrow>
     response \<times> AIModel list \<times> AIService" where
  "initializeModel tf st body =
     (let docs = fst st;
          aiModel =
            \<lparr>doc_id = fresh_id docs,
             name = or_default (name_body body) ''Default Model'',
             description = or_default (description_body body) ''Created via API'',
             modelType = ''tensorflow'',
             userId = userId_body body,
             status = ''initialized'',
             architecture_doc = default_layers,
             trainingHistory = None, trainingData = [], predictions = [],
             isPublic = False, baseModel = None, freezeBaseLayers_doc = None\<rparr>;
          docs1 = docs @ [aiModel]
      in case loadModel tf (snd st) None no_modelConfig of
           (True, svc) \<Rightarrow>
             (\<lparr>code = 200, success = True, message = ''AI model initialized successfully''\<rparr>,
              save_doc docs1 (aiModel\<lparr>status := ''initialized''\<rparr>), svc)
         | (False, svc) \<Rightarrow>
             (\<lparr>code = 500, success = False, message = ''Failed to initialize AI model''\<rparr>,
              save_doc docs1 (aiModel\<lparr>status := ''error''\<rparr>), svc))"

subsection \<open>\<^verbatim>\<open>trainModel\<close> of the controller\<close>

text \<open>A natural number in decimal, as \<^verbatim>\<open>Number.prototype.toString\<close> prints it.\<close>

fun show_nat :: "nat \<Rightarrow> string" where
  "show_nat n =
     (if n < 10 then [''0123456789'' ! n]
      else show_nat (n div 10) @ [''0123456789'' ! (n mod 10)])"

text \<open>\<^verbatim>\<open>Array.prototype.toString\<close>: the elements joined by commas.\<close>

fun array_toString :: "nat list \<Rightarrow> string" where
  "array_toString [] = []"
| "array_toString [x] = show_nat x"
| "array_toString (x # y # ys) = show_nat x @ '','' @ array_toString (y # ys)"

text \<open>
  \<^verbatim>\<open>result.epoch + 1\<close>: the left operand is an array, so \<^verbatim>\<open>+\<close> converts both operands to
  strings and concatenates them.
\<close>

definition epoch_plus_one :: "nat list \<Rightarrow> jsvalue" where
  "epoch_plus_one ep = JString (array_toString ep @ show_nat 1)"

text \<open>
  \<^verbatim>\<open>values[result.epoch]\<close>: the property key is the array as a string, which is an index
  of \<^verbatim>\<open>values\<close> only when the array has one element.
\<close>

fun at_epoch :: "jsnum list \<Rightarrow> nat list \<Rightarrow> jsnum option" where
  "at_epoch values [i] = (if i < length values then Some (values ! i) else None)"
| "at_epoch values ep = None"

text \<open>
  \<open>cast_epochs\<close> is the cast that the schema of models/aiModel.js (not among the sources)
  applies to \<^verbatim>\<open>trainingHistory.epochs\<close> when the document is saved: the value stored, or
  \<open>None\<close> when the save rejects.
\<close>

definition trainModel_handler ::
  "tflib \<Rightarrow> (tfmodel \<Rightarrow> matrix \<Rightarrow> matrix \<Rightarrow> nat \<Rightarrow> nat \<Rightarrow> (tfmodel \<times> fitResult) option) \<Rightarrow>
     (jsvalue \<Rightarrow> jsvalue option) \<Rightarrow> nat \<Rightarrow> AIModel list \<times> AIService \<Rightarrow> aiBody \<Rightarrow>
     response \<times> AIModel list \<times> AIService" where
  "trainModel_handler tf fit cast_epochs now st body =
     (let docs = fst st; svc = snd st
      in if trainData body = None \<or> labels body = None then
           (\<lparr>code = 400, success = False, message = ''Training data and labels are required''\<rparr>,
            docs, svc)
         else case modelId body of
           None \<Rightarrow> (\<lparr>code = 400, success = False, message = ''Model ID is required''\<rparr>, docs, svc)
         | Some mid \<Rightarrow>
             (case findById docs mid of
                None \<Rightarrow> (\<lparr>code = 404, success = False, message = ''Model not found''\<rparr>, docs, svc)
              | Some aiModel0 \<Rightarrow>
                  (let aiModel = addTrainingData aiModel0 (the (trainData body)) (the (labels body));
                       docs1 = save_doc docs aiModel
                   in case trainModel tf fit svc (the (trainData body)) (the (labels body))
                             (epochs_body body) (batchSize_body body) of
                        (Inl e, svc1) \<Rightarrow>
                          (\<lparr>code = 500, success = False, message = ''Error training AI model''\<rparr>,
                           docs1, svc1)
                      | (Inr result, svc1) \<Rightarrow>
                          (case cast_epochs (epoch_plus_one (epoch result)) of
                             None \<Rightarrow>
                               (\<lparr>code = 500, success = False,
                                 message = ''Error training AI model''\<rparr>, docs1, svc1)
                           | Some stored \<Rightarrow>
                               (\<lparr>code = 200, success = True,
                                 message = ''Model trained successfully''\<rparr>,
                                save_doc docs1
                                  (aiModel\<lparr>status := ''trained'',
                                     trainingHistory :=
                                       Some \<lparr>lastTrained = now, epochs = stored,
                                             loss = at_epoch (history_loss result) (epoch result),
                                             accuracy = at_epoch (history_acc result) (epoch result)\<rparr>\<rparr>),
                                svc1)))))"

subsection \<open>\<^verbatim>\<open>predict\<close> of the controller\<close>

definition predict_handler ::
  "(real \<Rightarrow> real) \<Rightarrow> (tfmodel \<Rightarrow> matrix \<Rightarrow> matrix option) \<Rightarrow> nat \<Rightarrow>
     AIModel list \<times> AIService \<Rightarrow> aiBody \<Rightarrow>
     (response \<times> (matrix \<times> jsnum list) option) \<times> AIModel list" where
  "predict_handler rnd run now st body =
     (let docs = fst st; svc = snd st
      in case inputData body of
           None \<Rightarrow>
             ((\<lparr>code = 400, success = False,
                message = ''Input data is required for prediction''\<rparr>, None), docs)
         | Some inp \<Rightarrow>
             (case modelId body of
                None \<Rightarrow>
                  ((\<lparr>code = 400, success = False, message = ''Model ID is required''\<rparr>, None), docs)
              | Some mid \<Rightarrow>
                  (case findById docs mid of
                     None \<Rightarrow>
                       ((\<lparr>code = 404, success = False, message = ''Model not found''\<rparr>, None), docs)
                   | Some aiModel \<Rightarrow>
                       (case predict rnd run svc inp of
                          Inl e \<Rightarrow>
                            ((\<lparr>code = 500, success = False,
                               message = ''Error making prediction''\<rparr>, None), docs)
                        | Inr predictions' \<Rightarrow>
                            ((\<lparr>code = 200, success = True,
                               message = ''Prediction completed successfully''\<rparr>,
                              Some predictions'),
                             save_doc docs
                               (fst (addPrediction now aiModel inp predictions'
                                       (userId_body body))))))))"

subsection \<open>\<^verbatim>\<open>cloneModelForTransfer\<close>\<close>

text \<open>
  \<open>u\<close> is \<^verbatim>\<open>req.user._id\<close>, set by the authentication middleware.  The access test calls
  \<^verbatim>\<open>sourceModel.userId.toString()\<close> first: on a source without \<^verbatim>\<open>userId\<close> this throws a
  \<^verbatim>\<open>TypeError\<close>, which the handler reports as 500.  The option passed to \<^verbatim>\<open>clone\<close> is
  \<^verbatim>\<open>freezeBaseLayers !== false\<close>.
\<close>

definition cloneModelForTransfer ::
  "AIModel list \<Rightarrow> nat \<Rightarrow> aiBody \<Rightarrow> (response \<times> AIModel option) \<times> AIModel list" where
  "cloneModelForTransfer docs u body =
     (case modelId body of
        None \<Rightarrow>
          ((\<lparr>code = 400, success = False, message = ''Source model ID is required''\<rparr>, None), docs)
      | Some mid \<Rightarrow>
          (case findById docs mid of
             None \<Rightarrow>
               ((\<lparr>code = 404, success = False, message = ''Source model not found''\<rparr>, None), docs)
           | Some sourceModel \<Rightarrow>
               (case userId sourceModel of
                  None \<Rightarrow>
                    ((\<lparr>code = 500, success = False,
                       message = ''Error cloning model for transfer learning''\<rparr>, None), docs)
                | Some owner \<Rightarrow>
                    (let hasAccess = (owner = u \<or> isPublic sourceModel)
                     in if \<not> hasAccess then
                          ((\<lparr>code = 403, success = False,
                             message = ''You do not have permission to clone this model''\<rparr>, None),
                           docs)
                        else
                          (let newModel =
                                 clone (fresh_id docs) sourceModel u (name_body body)
                                   (description_body body)
                                   (freezeBaseLayers_body body \<noteq> JBool False)
                           in ((\<lparr>code = 200, success = True,
                                  message = ''Model cloned successfully for transfer learning''\<rparr>,
                                Some newModel),
                               docs @ [newModel]))))))"

subsection \<open>\<^verbatim>\<open>register\<close>\<close>

record User =
  user_id :: nat
  username :: string
  email :: "string option"
  password :: string
  role :: string
  fullName :: string

record registerBody =
  username_body :: "string option"
  email_body :: "string option"
  password_body :: "string option"
  fullName_body :: "string option"

text \<open>
  Modelled from the spec: the static \<^verbatim>\<open>findByUsernameOrEmail\<close> and the default of \<^verbatim>\<open>role\<close> in
  the schema of models/userModel.js, which is not among the sources.  The lookup returns
  a user whose username or email is the key; a user created without a role has the role
  \<^verbatim>\<open>user\<close>.
\<close>

definition findByUsernameOrEmail :: "User list \<Rightarrow> string \<Rightarrow> User option" where
  "findByUsernameOrEmail users key = find (\<lambda>u. username u = key \<or> email u = Some key) users"

definition default_role :: string where
  "default_role = ''user''"

text \<open>\<^verbatim>\<open>User.countDocuments()\<close>.\<close>

definition countDocuments :: "User list \<Rightarrow> nat" where
  "countDocuments users = length users"

text \<open>
  \<open>save_ok\<close> tells whether \<^verbatim>\<open>user.save()\<close> accepts the new document (the validators of
  the schema); when it does not, the handler answers 500 and nothing is stored.  The
  response of a registration carries the stored user.
\<close>

definition register ::
  "(User \<Rightarrow> bool) \<Rightarrow> User list \<Rightarrow> registerBody \<Rightarrow> (response \<times> User option) \<times> User list" where
  "register save_ok users body =
     (if \<not> truthy (username_body body) \<or> \<not> truthy (password_body body) then
        ((\<lparr>code = 400, success = False, message = ''Username and password are required''\<rparr>,
          None), users)
      else
        (let existingUser =
               (case findByUsernameOrEmail users (the (username_body body)) of
                  Some u \<Rightarrow> Some u
                | None \<Rightarrow>
                    (if truthy (email_body body)
                     then findByUsernameOrEmail users (the (email_body body))
                     else None))
         in if existingUser \<noteq> None then
              ((\<lparr>code = 400, success = False, message = ''Username or email already exists''\<rparr>,
                None), users)
            else
              (let userCount = countDocuments users;
                   user =
                     \<lparr>user_id = Suc (fold max (map user_id users) 0),
                      username = the (username_body body),
                      email = email_body body,
                      password = the (password_body body),
                      role = (if userCount = 0 then ''admin'' else default_role),
                      fullName = or_default (fullName_body body) (the (username_body body))\<rparr>
               in if save_ok user then
                    ((\<lparr>code = 201, success = True, message = ''User registered successfully''\<rparr>,
                      Some user), users @ [user])
                  else
                    ((\<lparr>code = 500, success = False, message = ''Error registering user''\<rparr>,
                      None), users))))"

text \<open>A sequence of registration requests, handled one after the other.\<close>

fun registrations :: "(User \<Rightarrow> bool) \<Rightarrow> User list \<Rightarrow> registerBody list \<Rightarrow> User list" where
  "registrations save_ok users [] = users"
| "registrations save_ok users (body # rest) =
     registrations save_ok (snd (register save_ok users body)) rest"

subsection \<open>\<^verbatim>\<open>createDataset\<close> and \<^verbatim>\<open>deleteDataset\<close>\<close>

record Dataset =
  dataset_id :: nat
  dataset_name :: string
  dataset_description :: "string option"
  format :: string
  visibility :: string
  tags :: "string list"
  creator :: nat
  location :: string
  fileName :: string
  isActive :: bool

record datasetBody =
  name_field :: string
  description_field :: "string option"
  format_field :: string
  visibility_field :: "string option"
  tags_field :: "string list option"

definition DATASET_DIR :: string where
  "DATASET_DIR = ''/app/datasets''"

text \<open>The code units below 256 that \<^verbatim>\<open>\s\<close> matches: the ASCII white space and U+00A0.\<close>

definition is_space :: "char \<Rightarrow> bool" where
  "is_space c =
     (c \<in> set [CHR '' '', CHR 0x09, CHR 0x0A, CHR 0x0B, CHR 0x0C, CHR 0x0D, CHR 0xA0])"

text \<open>\<^verbatim>\<open>s.replace(/\s+/g, '_')\<close>: every maximal run of white space becomes one underscore.\<close>

function replace_spaces :: "string \<Rightarrow> string" where
  "replace_spaces [] = []"
| "replace_spaces (c # cs) =
     (if is_space c then CHR ''_'' # replace_spaces (dropWhile is_space cs)
      else c # replace_spaces cs)"
  by pat_completeness auto
termination
  by (relation "measure length") (auto simp add: less_Suc_eq_le length_dropWhile_le)

text \<open>\<^verbatim>\<open>Dataset.findOne({ name, creator })\<close>: the query has no other condition.\<close>

definition findOne :: "Dataset list \<Rightarrow> string \<Rightarrow> nat \<Rightarrow> Dataset option" where
  "findOne datasets n u = find (\<lambda>d. dataset_name d = n \<and> creator d = u) datasets"

text \<open>
  \<open>u\<close> is \<^verbatim>\<open>req.user._id\<close>.  \<open>create_ok\<close> tells whether the directory of the user can be
  made and \<^verbatim>\<open>Dataset.create\<close> accepts the document; when not, the handler answers 500.
  Modelled from the spec: a new dataset is active (the default of \<^verbatim>\<open>isActive\<close> in the schema
  of models/datasetModel.js, which is not among the sources).
\<close>

definition createDataset ::
  "(Dataset \<Rightarrow> bool) \<Rightarrow> Dataset list \<Rightarrow> nat \<Rightarrow> datasetBody \<Rightarrow> response \<times> Dataset list" where
  "createDataset create_ok datasets u body =
     (case findOne datasets (name_field body) u of
        Some existingDataset \<Rightarrow>
          (\<lparr>code = 400, success = False,
            message = ''You already have a dataset with this name''\<rparr>, datasets)
      | None \<Rightarrow>
          (let userDatasetDir = path_join DATASET_DIR (show_nat u);
               dataset =
                 \<lparr>dataset_id = Suc (fold max (map dataset_id datasets) 0),
                  dataset_name = name_field body,
                  dataset_description = description_field body,
                  format = format_field body,
                  visibility = or_default (visibility_field body) ''private'',
                  tags = (case tags_field body of Some ts \<Rightarrow> ts | None \<Rightarrow> []),
                  creator = u,
                  location = userDatasetDir,
                  fileName =
                    toLowerCase (replace_spaces (name_field body)) @ ''.'' @ format_field body,
                  isActive = True\<rparr>
           in if create_ok dataset then
                (\<lparr>code = 201, success = True, message = ''Dataset created successfully''\<rparr>,
                 datasets @ [dataset])
              else
                (\<lparr>code = 500, success = False, message = ''Error creating dataset''\<rparr>, datasets)))"

text \<open>The soft delete: the creator marks the dataset inactive; the record stays.\<close>

definition deleteDataset :: "Dataset list \<Rightarrow> nat \<Rightarrow> nat \<Rightarrow> response \<times> Dataset list" where
  "deleteDataset datasets u i =
     (case find (\<lambda>d. dataset_id d = i) datasets of
        None \<Rightarrow> (\<lparr>code = 404, success = False, message = ''Dataset not found''\<rparr>, datasets)
      | Some dataset \<Rightarrow>
          (if creator dataset \<noteq> u then
             (\<lparr>code = 403, success = False,
               message = ''You can only delete datasets you created''\<rparr>, datasets)
           else
             (\<lparr>code = 200, success = True, message = ''Dataset deleted successfully''\<rparr>,
              map (\<lambda>d. if dataset_id d = i then d\<lparr>isActive := False\<rparr> else d) datasets)))"

section \<open>Notions of the specification and example inputs\<close>

text \<open>The layer kinds that the specification lists as supported, and the supported
  entries of a layer list.\<close>

definition supported_types :: "string list" where
  "supported_types =
     [''dense'', ''conv2d'', ''maxPooling2d'', ''flatten'', ''dropout'', ''lstm'', ''gru'',
      ''batchNormalization'']"


text \<open>
  The members of \<^verbatim>\<open>tf.layers\<close> that this repository calls, each with the class of the
  layer it constructs.
\<close>

definition tf_layers_members :: "(string \<times> string) list" where
  "tf_layers_members =
     [(''dense'', ''Dense''), (''conv2d'', ''Conv2D''), (''maxPooling2d'', ''MaxPooling2D''),
      (''flatten'', ''Flatten''), (''dropout'', ''Dropout''), (''lstm'', ''LSTM''),
      (''gru'', ''GRU''), (''batchNormalization'', ''BatchNormalization'')]"

text \<open>
  The layers that \<^verbatim>\<open>createModelFromArchitecture\<close> constructs for a layer list whose first
  entry has the index \<open>i\<close>: one for each supported entry, in the order of the list.
\<close>

definition built_layers :: "nat list option \<Rightarrow> nat \<Rightarrow> layerSpec list \<Rightarrow> tflayer list" where
  "built_layers inputShape' i ls =
     map (\<lambda>(index, layer).
            new_layer (the (map_of tf_layers_members (type layer)))
              (layerConfig_of inputShape' index layer))
       (filter (\<lambda>(index, layer). type layer \<in> set supported_types) (enumerate i ls))"


text \<open>The condition under which \<^verbatim>\<open>loadModel\<close> takes its transfer-learning branch.\<close>

definition transfer_mode :: "string option \<Rightarrow> modelConfig \<Rightarrow> bool" where
  "transfer_mode modelPath modelConfig =
     (\<not> truthy modelPath \<and> \<not> has_architecture_layers modelConfig \<and> wants_transfer modelConfig)"

text \<open>
  The layers of a base model that are not output layers, with their indices, and the
  copy that \<^verbatim>\<open>setupTransferLearning\<close> makes of one of them.
\<close>

fun copied_layers :: "int list \<Rightarrow> int \<Rightarrow> tflayer list \<Rightarrow> (int \<times> tflayer) list" where
  "copied_layers outs index [] = []"
| "copied_layers outs index (layer # rest) =
     (if index \<in> set outs then copied_layers outs (index + 1) rest
      else (index, layer) # copied_layers outs (index + 1) rest)"

definition copy_of :: "tflib \<Rightarrow> bool \<Rightarrow> tflayer \<Rightarrow> tflayer" where
  "copy_of tf freeze layer =
     \<lparr>className = the (layers_member tf (toLowerCase (className layer))),
      getConfig = getConfig layer, trainable = (\<not> freeze)\<rparr>"

text \<open>
  What is used of the rounding of a difference to a double: it is monotone, and the
  doubles 1/2 and 1 are rounded to themselves.
\<close>

definition correct_rounding :: "(real \<Rightarrow> real) \<Rightarrow> bool" where
  "correct_rounding rnd =
     ((\<forall>x y. x \<le> y \<longrightarrow> rnd x \<le> rnd y) \<and> rnd (1 / 2) = 1 / 2 \<and> rnd 1 = 1)"

text \<open>The first user is the administrator, every other one has the role \<^verbatim>\<open>user\<close>.\<close>

definition roles_ok :: "User list \<Rightarrow> bool" where
  "roles_ok users =
     (case users of
        [] \<Rightarrow> True
      | first # others \<Rightarrow> role first = ''admin'' \<and> list_all (\<lambda>u. role u = ''user'') others)"

text \<open>The active datasets of a user that have a given name.\<close>

definition active_same_name :: "Dataset list \<Rightarrow> string \<Rightarrow> nat \<Rightarrow> Dataset list" where
  "active_same_name datasets n u =
     filter (\<lambda>d. dataset_name d = n \<and> creator d = u \<and> isActive d) datasets"

subsection \<open>An instance of the library\<close>

text \<open>
  The rules of the library that decide the examples: the factory of a dense layer needs
  \<^verbatim>\<open>units\<close>; the first layer added to a sequential model needs an input shape; a model
  without layers cannot be compiled; the members of \<^verbatim>\<open>tf.layers\<close> are the ones that the
  repository calls.  The instance takes what the model files hold.
\<close>

definition tfjs_accepts_config :: "string \<Rightarrow> layerConfig \<Rightarrow> bool" where
  "tfjs_accepts_config cn cfg =
     (if cn = ''Dense'' then map_of (settings cfg) ''units'' \<noteq> None else True)"

definition tfjs_accepts_layer :: "tflayer list \<Rightarrow> tflayer \<Rightarrow> bool" where
  "tfjs_accepts_layer before l =
     (if before = [] then inputShape_cfg (getConfig l) \<noteq> None else True)"

definition tfjs_accepts_compile :: "tflayer list \<Rightarrow> compileArgs \<Rightarrow> bool" where
  "tfjs_accepts_compile ls args = (ls \<noteq> [])"

definition tfjs :: "(string \<Rightarrow> tfmodel option) \<Rightarrow> tflib" where
  "tfjs stored =
     \<lparr>layers_member = map_of tf_layers_members,
      accepts_config = tfjs_accepts_config,
      accepts_layer = tfjs_accepts_layer,
      accepts_compile = tfjs_accepts_compile,
      loadLayersModel = stored\<rparr>"

definition no_stored_model :: "string \<Rightarrow> tfmodel option" where
  "no_stored_model p = None"

text \<open>The rounding of the examples: their differences are doubles already.\<close>

definition no_rounding :: "real \<Rightarrow> real" where
  "no_rounding x = x"

text \<open>A coarse rounding, to the nearest multiple of 1/1024.\<close>

definition round_1024 :: "real \<Rightarrow> real" where
  "round_1024 x = real_of_int (round (x * 1024)) / 1024"

text \<open>\<^verbatim>\<open>model.save\<close> writes the model at the URL and nothing of the configuration.\<close>

definition save_succeeds ::
  "string \<Rightarrow> tfmodel \<Rightarrow> saveConfig \<Rightarrow> model_store \<Rightarrow> model_store option" where
  "save_succeeds url m cfg store = Some (store(url \<mapsto> m))"

subsection \<open>Services\<close>

text \<open>A service after \<^verbatim>\<open>loadModel()\<close>, and one with stale transfer-learning state.\<close>

definition live_service :: AIService where
  "live_service = new_AIService\<lparr>model := Some default_model\<rparr>"

definition stale_service :: AIService where
  "stale_service =
     new_AIService\<lparr>model := Some default_model, isTransferLearning := True,
                    frozenLayers := [7, 8]\<rparr>"

text \<open>
  A service after \<^verbatim>\<open>loadModel\<close> with an architecture of one dense unit without activation,
  and one with a softmax layer of three units.
\<close>

definition linear_config :: modelConfig where
  "linear_config =
     \<lparr>architecture =
        Some \<lparr>layers = Some [\<lparr>type = ''dense'',
                               config = Some \<lparr>inputShape_cfg = None,
                                              settings = [(''units'', ''1'')]\<rparr>\<rparr>],
              inputShape = Some [1]\<rparr>,
      hyperparameters_cfg = None, baseModelPath = None, transferLearning = False,
      freezeBaseLayers = None, outputLayers = None\<rparr>"

definition linear_service :: AIService where
  "linear_service = snd (loadModel (tfjs no_stored_model) new_AIService None linear_config)"



text \<open>
  What the three networks compute on the example inputs: the linear unit (weight 1, bias
  0) returns its input, the sigmoid network and the softmax network return
  probabilities.
\<close>

definition run_linear :: "tfmodel \<Rightarrow> matrix \<Rightarrow> matrix option" where
  "run_linear m x = (if Some m = model linear_service then Some x else None)"



definition fit_fails ::
  "tfmodel \<Rightarrow> matrix \<Rightarrow> matrix \<Rightarrow> nat \<Rightarrow> nat \<Rightarrow> (tfmodel \<times> fitResult) option" where
  "fit_fails m x y e b = None"

definition keep_value :: "jsvalue \<Rightarrow> jsvalue option" where
  "keep_value v = Some v"

subsection \<open>Stored models\<close>

definition no_config :: layerConfig where
  "no_config = \<lparr>inputShape_cfg = None, settings = []\<rparr>"

definition conv_config :: layerConfig where
  "conv_config =
     \<lparr>inputShape_cfg = Some [28, 28, 1],
      settings = [(''filters'', ''8''), (''kernelSize'', ''3'')]\<rparr>"

definition dense_config :: layerConfig where
  "dense_config = \<lparr>inputShape_cfg = None, settings = [(''units'', ''10'')]\<rparr>"

definition dropout_config :: layerConfig where
  "dropout_config = \<lparr>inputShape_cfg = None, settings = [(''rate'', ''0.5'')]\<rparr>"

definition first_dense_config :: layerConfig where
  "first_dense_config = \<lparr>inputShape_cfg = Some [10], settings = [(''units'', ''10'')]\<rparr>"

text \<open>A stored convolutional network: convolution, pooling, flatten, dense.\<close>

definition cnn_base :: tfmodel where
  "cnn_base =
     \<lparr>model_layers = [new_layer ''Conv2D'' conv_config, new_layer ''MaxPooling2D'' no_config,
                      new_layer ''Flatten'' no_config, new_layer ''Dense'' dense_config],
      compiled = None\<rparr>"

definition stored_models :: "string \<Rightarrow> tfmodel option" where
  "stored_models p = (if p = ''file:///app/models/cnn'' then Some cnn_base else None)"

text \<open>A stored network of dense layers only.\<close>

definition dense_base :: tfmodel where
  "dense_base =
     \<lparr>model_layers = [new_layer ''Dense'' first_dense_config,
                      new_layer ''Dropout'' dropout_config, new_layer ''Dense'' dense_config],
      compiled = None\<rparr>"

definition stored_dense :: "string \<Rightarrow> tfmodel option" where
  "stored_dense p = (if p = ''file:///app/models/mlp'' then Some dense_base else None)"

definition transfer_config :: modelConfig where
  "transfer_config =
     \<lparr>architecture = None, hyperparameters_cfg = None,
      baseModelPath = Some ''file:///app/models/mlp'', transferLearning = True,
      freezeBaseLayers = None, outputLayers = None\<rparr>"

subsection \<open>Requests\<close>




definition skipped_first_layers :: "layerSpec list" where
  "skipped_first_layers =
     [\<lparr>type = ''attention'', config = None\<rparr>,
      \<lparr>type = ''dense'', config = Some dense_config\<rparr>]"




text \<open>The collection after one \<^verbatim>\<open>POST /ai/initialize\<close> whose body names no user.\<close>

definition one_model :: "AIModel list" where
  "one_model = fst (snd (initializeModel (tfjs no_stored_model) ([], new_AIService) empty_body))"

definition train_body :: aiBody where
  "train_body =
     empty_body\<lparr>modelId := Some 1, trainData := Some [[Finite (1 / 2), Finite (1 / 2)]],
                labels := Some [[Finite 1]], epochs_body := Some 1\<rparr>"

definition predict_body :: aiBody where
  "predict_body =
     empty_body\<lparr>modelId := Some 1, inputData := Some [[Finite (1 / 2), Finite (1 / 2)]]\<rparr>"

definition clone_body :: aiBody where
  "clone_body = empty_body\<lparr>modelId := Some 1\<rparr>"

definition owned_public_model :: "AIModel list" where
  "owned_public_model = map (\<lambda>d. d\<lparr>userId := Some 1, isPublic := True\<rparr>) one_model"

definition accept_user :: "User \<Rightarrow> bool" where
  "accept_user u = True"

definition body_of :: "string \<Rightarrow> registerBody" where
  "body_of n =
     \<lparr>username_body = Some n, email_body = None, password_body = Some ''secret'',
      fullName_body = None\<rparr>"

definition four_requests :: "registerBody list" where
  "four_requests = [body_of ''ada'', body_of ''ada'', body_of ''bob'', body_of ''cy'']"

definition accept_dataset :: "Dataset \<Rightarrow> bool" where
  "accept_dataset d = True"

definition sales_body :: datasetBody where
  "sales_body =
     \<lparr>name_field = ''Sales 2024'', description_field = None, format_field = ''csv'',
      visibility_field = None, tags_field = None\<rparr>"

text \<open>User 2 creates the dataset and then deletes it.\<close>

definition deleted_sales :: "Dataset list" where
  "deleted_sales = snd (deleteDataset (snd (createDataset accept_dataset [] 2 sales_body)) 2 1)"

section \<open>Properties\<close>

subsection \<open>Evaluation of the string functions and of the example inputs\<close>

lemma toLowerCase_examples:
  "toLowerCase ''Conv2D'' = ''conv2d''"
  "toLowerCase ''MaxPooling2D'' = ''maxpooling2d''"
  "toLowerCase ''Dense'' = ''dense''"
  "toLowerCase ''Dropout'' = ''dropout''"
  by (simp_all add: toLowerCase_def toLowerCase_char_def capital_letters_def small_letters_def)

lemma add_dense_layers_tfjs:
  "add_dense_layers (tfjs s) default_configs sequential =
     (None, \<lparr>model_layers = map (new_layer ''Dense'') default_configs, compiled = None\<rparr>)"
  by (simp add: default_configs_def factory_def add_def tfjs_def tfjs_accepts_config_def
      tfjs_accepts_layer_def new_layer_def sequential_def)

lemma loadModel_default:
  "loadModel (tfjs s) this None no_modelConfig =
     (True, this\<lparr>isTransferLearning := False, frozenLayers := [], model := Some default_model\<rparr>)"
  by (simp add: loadModel_def no_modelConfig_def has_architecture_layers_def wants_transfer_def
      add_dense_layers_tfjs compile_def tfjs_accepts_compile_def default_model_def)
     (simp add: tfjs_def tfjs_accepts_compile_def default_configs_def)

lemma one_model_eq:
  "one_model =
     [\<lparr>doc_id = 1, name = ''Default Model'', description = ''Created via API'',
       modelType = ''tensorflow'', userId = None, status = ''initialized'',
       architecture_doc = default_layers,
       trainingHistory = None, trainingData = [], predictions = [],
       isPublic = False, baseModel = None, freezeBaseLayers_doc = None\<rparr>]"
  by (simp add: one_model_def initializeModel_def loadModel_default empty_body_def fresh_id_def
      save_doc_def)



lemma deleted_sales_eq:
  "deleted_sales =
     [\<lparr>dataset_id = 1, dataset_name = ''Sales 2024'', dataset_description = None,
       format = ''csv'', visibility = ''private'', tags = [], creator = 2,
       location = ''/app/datasets/2'', fileName = ''sales_2024.csv'', isActive = False\<rparr>]"
  by (simp add: deleted_sales_def deleteDataset_def createDataset_def findOne_def sales_body_def
      accept_dataset_def DATASET_DIR_def path_join_def toLowerCase_def toLowerCase_char_def
      capital_letters_def small_letters_def is_space_def)

lemma four_requests_roles:
  "map role (registrations accept_user [] four_requests) = [''admin'', ''user'', ''user'']"
  by code_simp

text \<open>
  What the train handler computes from the result of a fit of one epoch: the string
  \<^verbatim>\<open>"01"\<close> for the epoch count, and the first entry of a history.
\<close>

lemma epoch_plus_one_single: "epoch_plus_one [0] = JString ''01''"
  by (simp add: epoch_plus_one_def)

lemma at_epoch_single: "at_epoch [l] [0] = Some l"
  by simp

subsection \<open>Confidence of a prediction\<close>






text \<open>
  A rounding to multiples of 1/1024 is monotone and fixes 1/2 and 1; under it the
  output \<open>- 1/4096\<close> has the confidence 1, so a confidence of at most 1 does not tell
  that the output is a probability.
\<close>

lemma correct_rounding_round_1024: "correct_rounding round_1024"
proof -
  have "\<And>x y :: real. x \<le> y \<Longrightarrow> round_1024 x \<le> round_1024 y"
    by (simp add: round_1024_def round_mono divide_right_mono)
  moreover have "round_1024 (1 / 2) = 1 / 2" "round_1024 1 = 1"
    by (simp_all add: round_1024_def)
  ultimately show ?thesis by (simp add: correct_rounding_def)
qed

lemma small_negative_output_gives_one:
  "confidence_of round_1024 [Finite (- 1 / 4096)] = Finite 1"
proof -
  have "round ((1 - (- 1 / 4096)) * 1024 :: real) = 1024"
    by (simp add: round_def)
  then show ?thesis by (simp add: confidence_of_def round_1024_def)
qed




subsection \<open>Failures of training and prediction\<close>

text \<open>
  Claim C2 says that a train or predict request that finds its model and then fails in
  the training or prediction step stores the status \<^verbatim>\<open>error\<close>.  The handlers do not: with
  a fit that throws, and with a service that holds no live model, the answer is 500 and
  the stored status is still \<^verbatim>\<open>initialized\<close>.
\<close>

theorem failed_training_keeps_status:
  "code (fst (trainModel_handler (tfjs no_stored_model) fit_fails keep_value 7
                (one_model, live_service) train_body)) = 500 \<and>
   map status
     (fst (snd (trainModel_handler (tfjs no_stored_model) fit_fails keep_value 7
                  (one_model, live_service) train_body)))
     = [''initialized''] \<and>
   code (fst (fst (predict_handler no_rounding run_linear 7 (one_model, new_AIService)
                     predict_body))) = 500 \<and>
   map status (snd (predict_handler no_rounding run_linear 7 (one_model, new_AIService)
                      predict_body))
     = [''initialized'']"
  by (simp add: one_model_eq trainModel_handler_def predict_handler_def train_body_def
      predict_body_def empty_body_def findById_def trainModel_def fit_fails_def live_service_def
      new_AIService_def default_model_def save_doc_def addTrainingData_def predict_def)

subsection \<open>Saving under a relative path\<close>

lemma saveModel_relative_path_fails:
  assumes "\<not> startsWith p ''file://''" "\<not> startsWith p ''http://''" "\<not> startsWith p ''https://''"
  shows "saveModel save now this store p md = (False, store)"
  using assms by (simp add: saveModel_def save_call_def split: option.splits)

lemma saveModel_url_succeeds:
  "saveModel save_succeeds ''2026-01-01T00:00:00.000Z'' live_service Map.empty
     ''file://./models/model_1'' [] =
   (True, [''file://./models/model_1'' \<mapsto> default_model])"
  by (simp add: saveModel_def save_call_def live_service_def new_AIService_def startsWith_def
      save_succeeds_def)

text \<open>
  Claim C3 says that \<^verbatim>\<open>saveModel\<close> with a live model and a path without a URL scheme
  resolves the path against the models directory, saves and returns \<^verbatim>\<open>true\<close>.  In that
  branch \<^verbatim>\<open>path.join\<close> is looked up on the string parameter, the call throws, and the
  method returns \<^verbatim>\<open>false\<close> without writing anything.
\<close>

theorem saveModel_relative_path_returns_false:
  "saveModel save_succeeds ''2026-01-01T00:00:00.000Z'' live_service Map.empty ''my_model'' [] =
     (False, Map.empty)"
  by (simp add: saveModel_def save_call_def live_service_def new_AIService_def startsWith_def)

subsection \<open>Transfer learning\<close>

lemma forEach_baseLayer_copies:
  assumes "\<forall>(k, l) \<in> set (copied_layers outs i ls).
             layers_member tf (toLowerCase (className l)) \<noteq> None"
      and "\<forall>cn cfg. accepts_config tf cn cfg"
      and "\<forall>before l. accepts_layer tf before l"
  shows "forEach_baseLayer tf freeze outs ls i (m, fr) =
     (None,
      m\<lparr>model_layers :=
          model_layers m @ map (\<lambda>(k, l). copy_of tf freeze l) (copied_layers outs i ls)\<rparr>,
      fr @ (if freeze then map fst (copied_layers outs i ls) else []))"
  using assms(1)
proof (induction ls arbitrary: i m fr)
  case Nil
  then show ?case by simp
next
  case (Cons l ls)
  show ?case
  proof (cases "i \<in> set outs")
    case True
    then show ?thesis using Cons.IH[of "i + 1" m fr] Cons.prems by simp
  next
    case False
    then have ok: "layers_member tf (toLowerCase (className l)) \<noteq> None"
      and rest: "\<forall>(k, l) \<in> set (copied_layers outs (i + 1) ls).
                   layers_member tf (toLowerCase (className l)) \<noteq> None"
      using Cons.prems by auto
    then obtain cn where cn: "layers_member tf (toLowerCase (className l)) = Some cn"
      by auto
    show ?thesis
    proof (cases freeze)
      case True
      then show ?thesis
        using False cn assms(2,3)
          Cons.IH[OF rest, of "m\<lparr>model_layers :=
                 model_layers m @ [(new_layer cn (getConfig l))\<lparr>trainable := False\<rparr>]\<rparr>"
            "fr @ [i]"]
        by (simp add: tf_layers_def factory_def add_def copy_of_def new_layer_def)
    next
      case nf: False
      then show ?thesis
        using False cn assms(2,3)
          Cons.IH[OF rest, of "m\<lparr>model_layers := model_layers m @ [new_layer cn (getConfig l)]\<rparr>"
            fr]
        by (simp add: tf_layers_def factory_def add_def copy_of_def new_layer_def)
    qed
  qed
qed

text \<open>
  When every layer to copy has a class name whose lower-case form is a member of
  \<^verbatim>\<open>tf.layers\<close>, and the library accepts every configuration and every layer, the new
  model holds the copies of exactly the layers outside the output indices, in order; with
  freezing they are not trainable and their indices are appended to the frozen list,
  without freezing the list is unchanged.
\<close>

lemma setupTransferLearning_copies:
  assumes "loadLayersModel tf path = Some base"
      and "outs = (if outputOpt = None \<or> outputOpt = Some []
                   then [int (length (model_layers base)) - 1] else the outputOpt)"
      and "freeze = (freezeOpt \<noteq> Some False)"
      and "\<forall>(k, l) \<in> set (copied_layers outs 0 (model_layers base)).
             layers_member tf (toLowerCase (className l)) \<noteq> None"
      and "\<forall>cn cfg. accepts_config tf cn cfg"
      and "\<forall>before l. accepts_layer tf before l"
  shows "setupTransferLearning tf this path freezeOpt outputOpt =
     (Inr True,
      this\<lparr>transferBaseModel := Some base, isTransferLearning := True,
           model := Some \<lparr>model_layers =
                            map (\<lambda>(k, l). copy_of tf freeze l)
                              (copied_layers outs 0 (model_layers base)),
                          compiled = None\<rparr>,
           frozenLayers :=
             frozenLayers this @
             (if freeze then map fst (copied_layers outs 0 (model_layers base)) else [])\<rparr>)"
proof -
  have f: "(case freezeOpt of None \<Rightarrow> True | Some b \<Rightarrow> b) = freeze"
    using assms(3) by (cases freezeOpt) auto
  have o: "(if (case outputOpt of None \<Rightarrow> [] | Some l \<Rightarrow> l) = []
            then [int (length (model_layers base)) - 1]
            else (case outputOpt of None \<Rightarrow> [] | Some l \<Rightarrow> l)) = outs"
    using assms(2) by (cases outputOpt) auto
  show ?thesis
    using assms(1)
      forEach_baseLayer_copies[OF assms(4,5,6), of freeze sequential "frozenLayers this"]
    by (simp add: setupTransferLearning_def f o Let_def sequential_def)
qed

lemma setupTransferLearning_dense_base:
  "setupTransferLearning (tfjs stored_dense) new_AIService ''file:///app/models/mlp'' None None =
     (Inr True,
      new_AIService\<lparr>transferBaseModel := Some dense_base, isTransferLearning := True,
         model := Some \<lparr>model_layers =
                          [(new_layer ''Dense'' first_dense_config)\<lparr>trainable := False\<rparr>,
                           (new_layer ''Dropout'' dropout_config)\<lparr>trainable := False\<rparr>],
                        compiled = None\<rparr>,
         frozenLayers := [0, 1]\<rparr>)"
  by (simp add: setupTransferLearning_def stored_dense_def dense_base_def new_AIService_def
      sequential_def add_def factory_def new_layer_def toLowerCase_examples tf_layers_def
      tf_layers_members_def tfjs_def tfjs_accepts_config_def tfjs_accepts_layer_def
      first_dense_config_def)

text \<open>
  A lower-case string has no capital letter, so no class name leads to the members
  \<^verbatim>\<open>maxPooling2d\<close> and \<^verbatim>\<open>batchNormalization\<close>, whatever the library calls the classes.
\<close>

lemma toLowerCase_char_not_capital:
  "toLowerCase_char c \<notin> set capital_letters"
  by (simp add: toLowerCase_char_def capital_letters_def small_letters_def split: option.splits)

lemma toLowerCase_no_capital:
  "c \<in> set (toLowerCase s) \<Longrightarrow> c \<notin> set capital_letters"
  using toLowerCase_char_not_capital by (auto simp add: toLowerCase_def)

lemma camel_case_members_unreachable:
  "toLowerCase s \<noteq> ''maxPooling2d'' \<and> toLowerCase s \<noteq> ''batchNormalization''"
proof -
  have "CHR ''P'' \<in> set ''maxPooling2d''" "CHR ''N'' \<in> set ''batchNormalization''"
    by simp_all
  moreover have "CHR ''P'' \<in> set capital_letters" "CHR ''N'' \<in> set capital_letters"
    by (simp_all add: capital_letters_def)
  ultimately show ?thesis using toLowerCase_no_capital by metis
qed

lemma pooling_never_copied:
  "map_of tf_layers_members (toLowerCase s) \<noteq> Some ''MaxPooling2D'' \<and>
   map_of tf_layers_members (toLowerCase s) \<noteq> Some ''BatchNormalization''"
  using camel_case_members_unreachable[of s]
  by (simp add: tf_layers_members_def)

text \<open>
  Claim C4 says that for every base model the new model holds exactly the layers outside
  the output indices.  The factory of a copy is \<^verbatim>\<open>tf.layers[className.toLowerCase()]\<close>, and
  the members \<^verbatim>\<open>maxPooling2d\<close> and \<^verbatim>\<open>batchNormalization\<close> are not lower-case names: on a base
  model with a pooling layer the loop throws at that layer, the new model holds only the
  layers before it, and \<^verbatim>\<open>loadModel\<close> reports failure.
\<close>

theorem setupTransferLearning_throws_on_pooling_layer:
  "setupTransferLearning (tfjs stored_models) new_AIService ''file:///app/models/cnn''
     (Some True) None =
     (Inl TypeError,
      new_AIService\<lparr>transferBaseModel := Some cnn_base, isTransferLearning := True,
         model := Some \<lparr>model_layers = [(new_layer ''Conv2D'' conv_config)\<lparr>trainable := False\<rparr>],
                        compiled = None\<rparr>,
         frozenLayers := [0]\<rparr>) \<and>
   map fst (copied_layers [3] 0 (model_layers cnn_base)) = [0, 1, 2]"
  by (simp add: setupTransferLearning_def stored_models_def cnn_base_def new_AIService_def
      sequential_def add_def factory_def new_layer_def toLowerCase_examples tf_layers_def
      tf_layers_members_def tfjs_def tfjs_accepts_config_def tfjs_accepts_layer_def
      conv_config_def)

subsection \<open>A model built from an architecture\<close>









lemma skipped_first_built:
  "built_layers (Some [10]) 0 skipped_first_layers = [new_layer ''Dense'' dense_config]"
  by (simp add: built_layers_def skipped_first_layers_def supported_types_def
      tf_layers_members_def layerConfig_of_def dense_config_def)




subsection \<open>Dataset names\<close>

lemma find_not_None_iff: "find P xs \<noteq> None \<longleftrightarrow> (\<exists>x \<in> set xs. P x)"
  by (induction xs) auto

text \<open>
  Claim C6, as stated, says that a creation is rejected exactly when the user has an
  active dataset of that name, so that the name of a soft-deleted dataset can be used
  again.  The query of the handler does not look at \<^verbatim>\<open>isActive\<close>: after user 2 has created
  and deleted a dataset, the user has no active dataset of that name and the creation is
  rejected all the same.
\<close>

theorem soft_deleted_name_is_rejected:
  "active_same_name deleted_sales ''Sales 2024'' 2 = [] \<and>
   createDataset accept_dataset deleted_sales 2 sales_body =
     (\<lparr>code = 400, success = False, message = ''You already have a dataset with this name''\<rparr>,
      deleted_sales)"
  by (simp add: deleted_sales_eq active_same_name_def createDataset_def findOne_def
      sales_body_def)

text \<open>
  Claim C6, amended: a creation is rejected with 400 exactly when the user already has a
  dataset of that name, active or soft-deleted, and then no record is created; a creation
  answered with 201 appends one active record of that name and creator.
\<close>

theorem createDataset_rejects_any_same_name:
  "(code (fst (createDataset create_ok datasets u body)) = 400 \<longleftrightarrow>
      (\<exists>d \<in> set datasets. dataset_name d = name_field body \<and> creator d = u)) \<and>
   (code (fst (createDataset create_ok datasets u body)) = 400 \<longrightarrow>
      snd (createDataset create_ok datasets u body) = datasets) \<and>
   (code (fst (createDataset create_ok datasets u body)) = 201 \<longrightarrow>
      (\<exists>d. snd (createDataset create_ok datasets u body) = datasets @ [d] \<and>
           dataset_name d = name_field body \<and> creator d = u \<and> isActive d))"
proof (cases "findOne datasets (name_field body) u")
  case None
  then have "\<not> (\<exists>d \<in> set datasets. dataset_name d = name_field body \<and> creator d = u)"
    using find_not_None_iff[of "\<lambda>d. dataset_name d = name_field body \<and> creator d = u" datasets]
    by (simp add: findOne_def)
  then show ?thesis using None by (simp add: createDataset_def Let_def)
next
  case (Some a)
  then have "\<exists>d \<in> set datasets. dataset_name d = name_field body \<and> creator d = u"
    using find_not_None_iff[of "\<lambda>d. dataset_name d = name_field body \<and> creator d = u" datasets]
    by (simp add: findOne_def)
  then show ?thesis using Some by (simp add: createDataset_def)
qed

theorem createDataset_rejects_any_same_name_witness:
  "code (fst (createDataset accept_dataset deleted_sales 2 sales_body)) = 400 \<and>
   snd (createDataset accept_dataset deleted_sales 2 sales_body) = deleted_sales \<and>
   code (fst (createDataset accept_dataset deleted_sales 3 sales_body)) = 201 \<and>
   map creator (snd (createDataset accept_dataset deleted_sales 3 sales_body)) = [2, 3]"
  using createDataset_rejects_any_same_name[of accept_dataset deleted_sales 2 sales_body]
    createDataset_rejects_any_same_name[of accept_dataset deleted_sales 3 sales_body]
  by (simp add: deleted_sales_eq createDataset_def findOne_def sales_body_def accept_dataset_def)

subsection \<open>Roles at registration\<close>

lemma register_result:
  "snd (register save_ok users body) = users \<or>
   (\<exists>user. snd (register save_ok users body) = users @ [user] \<and>
      fst (register save_ok users body) =
        (\<lparr>code = 201, success = True, message = ''User registered successfully''\<rparr>, Some user) \<and>
      role user = (if users = [] then ''admin'' else ''user''))"
  by (auto simp add: register_def Let_def countDocuments_def default_role_def)

lemma register_roles_ok:
  assumes "roles_ok users"
  shows "roles_ok (snd (register save_ok users body))"
proof -
  from register_result[of save_ok users body] show ?thesis
  proof
    assume "snd (register save_ok users body) = users"
    then show ?thesis using assms by simp
  next
    assume "\<exists>user. snd (register save_ok users body) = users @ [user] \<and>
      fst (register save_ok users body) =
        (\<lparr>code = 201, success = True, message = ''User registered successfully''\<rparr>, Some user) \<and>
      role user = (if users = [] then ''admin'' else ''user'')"
    then obtain user where s: "snd (register save_ok users body) = users @ [user]"
      and r: "role user = (if users = [] then ''admin'' else ''user'')" by blast
    show ?thesis
    proof (cases users)
      case Nil
      then show ?thesis using s r by (simp add: roles_ok_def)
    next
      case (Cons a list)
      then show ?thesis using s r assms by (simp add: roles_ok_def)
    qed
  qed
qed

lemma registrations_roles_ok:
  "roles_ok users \<Longrightarrow> roles_ok (registrations save_ok users bodies)"
  by (induction bodies arbitrary: users) (simp_all add: register_roles_ok)

text \<open>
  Claim C7: after any sequence of registration requests on an empty user store, the
  first account in the store has the role \<^verbatim>\<open>admin\<close> and every later one the role \<^verbatim>\<open>user\<close>;
  and each registration that creates an account appends it with the role \<^verbatim>\<open>admin\<close> when
  the store was empty and \<^verbatim>\<open>user\<close> otherwise.
\<close>

theorem first_registered_admin_others_user:
  "roles_ok (registrations save_ok [] bodies) \<and>
   (\<forall>users body r user.
      register save_ok users body = ((r, Some user), users @ [user]) \<longrightarrow>
        role user = (if users = [] then ''admin'' else ''user''))"
proof -
  have a: "roles_ok (registrations save_ok [] bodies)"
    by (rule registrations_roles_ok) (simp add: roles_ok_def)
  have b: "\<forall>users body r user.
      register save_ok users body = ((r, Some user), users @ [user]) \<longrightarrow>
        role user = (if users = [] then ''admin'' else ''user'')"
  proof (intro allI impI)
    fix users body r user
    assume h: "register save_ok users body = ((r, Some user), users @ [user])"
    from register_result[of save_ok users body] h
    show "role user = (if users = [] then ''admin'' else ''user'')" by auto
  qed
  show ?thesis using a b by blast
qed

theorem first_registered_admin_others_user_witness:
  "map role (registrations accept_user [] four_requests) = [''admin'', ''user'', ''user''] \<and>
   roles_ok (registrations accept_user [] four_requests)"
  using first_registered_admin_others_user[of accept_user four_requests] four_requests_roles
  by simp

subsection \<open>Cloning a model\<close>

text \<open>
  On a source that has an owner the handler answers 403 and stores nothing when the
  requester is not the owner and the source is not public; otherwise it stores the clone,
  whose base model is the source and whose freeze option is true unless the body holds
  the boolean \<^verbatim>\<open>false\<close>.
\<close>

lemma clone_with_owner:
  assumes "findById docs mid = Some source" "userId source = Some owner"
      and "modelId body = Some mid"
  shows "(owner \<noteq> u \<and> \<not> isPublic source \<longrightarrow>
            code (fst (fst (cloneModelForTransfer docs u body))) = 403 \<and>
            snd (cloneModelForTransfer docs u body) = docs) \<and>
         (owner = u \<or> isPublic source \<longrightarrow>
            (\<exists>r new. cloneModelForTransfer docs u body = ((r, Some new), docs @ [new]) \<and>
               code r = 200 \<and> baseModel new = Some (doc_id source) \<and>
               freezeBaseLayers_doc new = Some (freezeBaseLayers_body body \<noteq> JBool False)))"
  using assms by (auto simp add: cloneModelForTransfer_def clone_def Let_def)

lemma clone_of_public_model:
  "code (fst (fst (cloneModelForTransfer owned_public_model 2 clone_body))) = 200 \<and>
   map baseModel (snd (cloneModelForTransfer owned_public_model 2 clone_body)) = [None, Some 1] \<and>
   map freezeBaseLayers_doc (snd (cloneModelForTransfer owned_public_model 2 clone_body))
     = [None, Some True]"
  by (simp add: owned_public_model_def one_model_eq cloneModelForTransfer_def clone_body_def
      empty_body_def findById_def clone_def fresh_id_def Let_def)

text \<open>
  Claim C8 says that a clone request on an existing source fails with 403 unless the
  requester owns the source or the source is public.  A model initialized without
  \<^verbatim>\<open>userId\<close> has no owner and is not public; a clone request on it by user 2 is answered
  with 500, not 403.
\<close>

theorem clone_of_ownerless_model_is_500:
  "userId (hd one_model) = None \<and> isPublic (hd one_model) = False \<and>
   cloneModelForTransfer one_model 2 clone_body =
     ((\<lparr>code = 500, success = False,
        message = ''Error cloning model for transfer learning''\<rparr>, None),
      one_model)"
  by (simp add: one_model_eq cloneModelForTransfer_def clone_body_def empty_body_def
      findById_def)

subsection \<open>The transfer-learning state after \<^verbatim>\<open>loadModel\<close>\<close>

lemma createModelFromArchitecture_flags:
  "createModelFromArchitecture tf this = (r, this') \<Longrightarrow>
     isTransferLearning this' = isTransferLearning this \<and> frozenLayers this' = frozenLayers this"
  by (auto simp add: createModelFromArchitecture_def Let_def split: option.splits prod.splits sum.splits)

lemma loadModel_flags:
  assumes "loadModel tf this modelPath modelConfig = (b, this')"
      and "\<not> transfer_mode modelPath modelConfig"
  shows "isTransferLearning this' = False \<and> frozenLayers this' = []"
proof (cases "truthy modelPath")
  case True
  then show ?thesis using assms(1)
    by (auto simp add: loadModel_def Let_def split: option.splits)
next
  case False
  show ?thesis
  proof (cases "has_architecture_layers modelConfig")
    case True
    obtain r s where c: "createModelFromArchitecture tf
             (this\<lparr>isTransferLearning := False, frozenLayers := [],
                    modelArchitecture := architecture modelConfig,
                    hyperparameters := Some (case hyperparameters_cfg modelConfig of
                                    Some h \<Rightarrow> h | None \<Rightarrow> no_hyperparams)\<rparr>) = (r, s)"
      by (cases "createModelFromArchitecture tf
             (this\<lparr>isTransferLearning := False, frozenLayers := [],
                    modelArchitecture := architecture modelConfig,
                    hyperparameters := Some (case hyperparameters_cfg modelConfig of
                                    Some h \<Rightarrow> h | None \<Rightarrow> no_hyperparams)\<rparr>)") blast
    from createModelFromArchitecture_flags[OF c]
    have s: "isTransferLearning s = False \<and> frozenLayers s = []" by simp
    have "this' = s" using assms(1) \<open>\<not> truthy modelPath\<close> True c
      by (cases r) (simp_all add: loadModel_def Let_def)
    then show ?thesis using s by simp
  next
    case nl: False
    then have "\<not> wants_transfer modelConfig" using assms(2) \<open>\<not> truthy modelPath\<close>
      by (simp add: transfer_mode_def)
    then show ?thesis using assms(1) \<open>\<not> truthy modelPath\<close> nl
      by (auto simp add: loadModel_def Let_def split: prod.splits option.splits sum.splits)
  qed
qed

lemma getModelSummary_flags:
  "getModelSummary cp this = Inr s \<Longrightarrow>
     isTransferLearning_summary s = isTransferLearning this \<and>
     frozenLayers_summary s = frozenLayers this"
  by (auto simp add: getModelSummary_def Let_def split: option.splits)

lemma save_call_flags:
  "save_call now this path md = Inr (url, m, cfg) \<Longrightarrow>
     isTransferLearning_saved (metadata cfg) = isTransferLearning this \<and>
     frozenLayers_saved (metadata cfg) = frozenLayers this"
  by (auto simp add: save_call_def Let_def metadata_envelope_def
      split: option.splits sum.splits if_splits)

lemma loadModel_transfer_dense_base:
  "loadModel (tfjs stored_dense) live_service None transfer_config =
     (True,
      live_service\<lparr>transferBaseModel := Some dense_base, isTransferLearning := True,
         model := Some \<lparr>model_layers =
                          [(new_layer ''Dense'' first_dense_config)\<lparr>trainable := False\<rparr>,
                           (new_layer ''Dropout'' dropout_config)\<lparr>trainable := False\<rparr>],
                        compiled = None\<rparr>,
         frozenLayers := [0, 1]\<rparr>)"
  by (simp add: loadModel_def transfer_config_def has_architecture_layers_def wants_transfer_def
      live_service_def
      setupTransferLearning_def stored_dense_def dense_base_def new_AIService_def
      sequential_def add_def factory_def new_layer_def toLowerCase_examples tf_layers_def
      tf_layers_members_def tfjs_def tfjs_accepts_config_def tfjs_accepts_layer_def
      first_dense_config_def)

text \<open>
  Claim C10: \<^verbatim>\<open>loadModel\<close> resets the transfer-learning fields before it chooses a mode,
  so in every mode, and whether the call succeeds or fails, its result does not depend on
  the values that the two fields held before.  After a successful call that does not
  take the transfer-learning branch the service holds \<^verbatim>\<open>isTransferLearning = false\<close> and no
  frozen layers, and so do every summary it returns and the metadata of every call of
  \<^verbatim>\<open>model.save\<close> that \<^verbatim>\<open>saveModel\<close> makes.
\<close>

theorem loadModel_resets_transfer_state:
  "loadModel tf (this\<lparr>isTransferLearning := x, frozenLayers := y\<rparr>) modelPath modelConfig =
     loadModel tf this modelPath modelConfig \<and>
   (\<forall>this'. loadModel tf this modelPath modelConfig = (True, this') \<and>
            \<not> transfer_mode modelPath modelConfig \<longrightarrow>
      isTransferLearning this' = False \<and> frozenLayers this' = [] \<and>
      (\<forall>cp s. getModelSummary cp this' = Inr s \<longrightarrow>
         isTransferLearning_summary s = False \<and> frozenLayers_summary s = []) \<and>
      (\<forall>now path md url m cfg. save_call now this' path md = Inr (url, m, cfg) \<longrightarrow>
         isTransferLearning_saved (metadata cfg) = False \<and>
         frozenLayers_saved (metadata cfg) = []))"
proof -
  have a: "loadModel tf (this\<lparr>isTransferLearning := x, frozenLayers := y\<rparr>) modelPath modelConfig =
     loadModel tf this modelPath modelConfig"
    by (simp add: loadModel_def)
  have b: "\<forall>this'. loadModel tf this modelPath modelConfig = (True, this') \<and>
            \<not> transfer_mode modelPath modelConfig \<longrightarrow>
      isTransferLearning this' = False \<and> frozenLayers this' = [] \<and>
      (\<forall>cp s. getModelSummary cp this' = Inr s \<longrightarrow>
         isTransferLearning_summary s = False \<and> frozenLayers_summary s = []) \<and>
      (\<forall>now path md url m cfg. save_call now this' path md = Inr (url, m, cfg) \<longrightarrow>
         isTransferLearning_saved (metadata cfg) = False \<and>
         frozenLayers_saved (metadata cfg) = [])"
  proof (intro allI impI)
    fix this'
    assume h: "loadModel tf this modelPath modelConfig = (True, this') \<and>
               \<not> transfer_mode modelPath modelConfig"
    then have f: "isTransferLearning this' = False \<and> frozenLayers this' = []"
      using loadModel_flags by blast
    have g: "\<forall>cp s. getModelSummary cp this' = Inr s \<longrightarrow>
            isTransferLearning_summary s = False \<and> frozenLayers_summary s = []"
      using getModelSummary_flags f by metis
    have k: "\<forall>now path md url m cfg. save_call now this' path md = Inr (url, m, cfg) \<longrightarrow>
         isTransferLearning_saved (metadata cfg) = False \<and>
         frozenLayers_saved (metadata cfg) = []"
      using save_call_flags f by metis
    show "isTransferLearning this' = False \<and> frozenLayers this' = [] \<and>
      (\<forall>cp s. getModelSummary cp this' = Inr s \<longrightarrow>
         isTransferLearning_summary s = False \<and> frozenLayers_summary s = []) \<and>
      (\<forall>now path md url m cfg. save_call now this' path md = Inr (url, m, cfg) \<longrightarrow>
         isTransferLearning_saved (metadata cfg) = False \<and>
         frozenLayers_saved (metadata cfg) = [])"
      using f g k by blast
  qed
  show ?thesis using a b by blast
qed

theorem loadModel_resets_transfer_state_witness:
  "loadModel (tfjs no_stored_model) stale_service None no_modelConfig =
     (True, live_service) \<and>
   \<not> transfer_mode None no_modelConfig \<and>
   isTransferLearning stale_service = True \<and> frozenLayers stale_service = [7, 8] \<and>
   isTransferLearning live_service = False \<and> frozenLayers live_service = [] \<and>
   transfer_mode None transfer_config \<and>
   map_option frozenLayers
     (Some (snd (loadModel (tfjs stored_dense) stale_service None transfer_config)))
     = Some [0, 1]"
proof -
  have s: "stale_service = live_service\<lparr>isTransferLearning := True, frozenLayers := [7, 8]\<rparr>"
    by (simp add: stale_service_def live_service_def)
  have a: "loadModel (tfjs no_stored_model) stale_service None no_modelConfig =
     (True, live_service)"
    by (simp add: loadModel_default stale_service_def live_service_def new_AIService_def)
  have b: "\<not> transfer_mode None no_modelConfig"
    by (simp add: transfer_mode_def no_modelConfig_def wants_transfer_def)
  have c: "transfer_mode None transfer_config"
    by (simp add: transfer_mode_def transfer_config_def wants_transfer_def
        has_architecture_layers_def)
  have d: "loadModel (tfjs stored_dense) stale_service None transfer_config =
           loadModel (tfjs stored_dense) live_service None transfer_config"
    using loadModel_resets_transfer_state[where tf = "tfjs stored_dense" and this = live_service
        and x = True and y = "[7, 8]" and modelPath = None and modelConfig = transfer_config]
    by (simp add: s)
  show ?thesis
    using a b c loadModel_resets_transfer_state[where tf = "tfjs no_stored_model"
        and this = stale_service and x = True and y = "[7, 8]" and modelPath = None
        and modelConfig = no_modelConfig]
    by (simp add: d loadModel_transfer_dense_base) (simp add: stale_service_def live_service_def new_AIService_def)
qed

end
